theory Spec2Isabelle
  imports Main "HOL-Library.Word"
begin

unbundle bit_operations_syntax

section \<open>Python values, exceptions and the file system\<close>

text \<open>
  The exceptions the modelled code can raise. A function that can raise returns
  \<open>error + 'a\<close>, with \<open>Inl\<close> for the exception.
\<close>

datatype error =
    IOError           \<comment> \<open>\<open>open\<close> on a missing path or on a directory\<close>
  | OSError           \<comment> \<open>\<open>os.listdir\<close>, \<open>os.path.getsize\<close> on a bad path\<close>
  | StructError       \<comment> \<open>\<open>struct.unpack\<close> on a buffer of the wrong length\<close>
  | ValueError        \<comment> \<open>\<open>int\<close> on a string that is no integer literal\<close>
  | KeyError          \<comment> \<open>a missing dictionary key\<close>
  | AttributeError    \<comment> \<open>a method the object's class does not define\<close>
  | ParsingError      \<comment> \<open>a configuration file the parser rejects\<close>
  | CalledProcessError string  \<comment> \<open>a subprocess that exits with a non-zero code; its output\<close>
  | Fault string      \<comment> \<open>an XML-RPC or transport failure of the remote server\<close>

type_synonym byte = "8 word"

text \<open>
  The file system as the code sees it: a path names a regular file (with its bytes), a
  directory (with the names \<open>os.listdir\<close> returns, in that order), or nothing.
\<close>

datatype node = File "byte list" | Directory "string list"

type_synonym filesystem = "string \<rightharpoonup> node"

text \<open>
  The part of the process state the fingerprint function touches: the files, and the
  file handles that are open (one entry per handle, named by the path it was opened on).
\<close>

record world =
  files :: filesystem
  handles :: "string list"

definition os_path_isfile :: "filesystem \<Rightarrow> string \<Rightarrow> bool" where
  "os_path_isfile fs p = (case fs p of Some (File _) \<Rightarrow> True | _ \<Rightarrow> False)"

definition os_path_isdir :: "filesystem \<Rightarrow> string \<Rightarrow> bool" where
  "os_path_isdir fs p = (case fs p of Some (Directory _) \<Rightarrow> True | _ \<Rightarrow> False)"

definition os_path_exists :: "filesystem \<Rightarrow> string \<Rightarrow> bool" where
  "os_path_exists fs p = (fs p \<noteq> None)"

definition os_listdir :: "filesystem \<Rightarrow> string \<Rightarrow> error + string list" where
  "os_listdir fs p = (case fs p of Some (Directory names) \<Rightarrow> Inr names | _ \<Rightarrow> Inl OSError)"

text \<open>
  \<open>os.path.getsize\<close>: the length of a regular file. The size a directory reports is
  not modelled (no modelled caller asks for it after a successful \<open>open\<close>).
\<close>

definition os_path_getsize :: "filesystem \<Rightarrow> string \<Rightarrow> error + nat" where
  "os_path_getsize fs p = (case fs p of Some (File bs) \<Rightarrow> Inr (length bs) | _ \<Rightarrow> Inl OSError)"

subsection \<open>File objects\<close>

record fileobj =
  fname :: string
  fcontent :: "byte list"
  fpos :: nat

text \<open>\<open>open(name, "rb")\<close>: a new handle at position 0, recorded as open.\<close>

definition py_open :: "world \<Rightarrow> string \<Rightarrow> error + (fileobj \<times> world)" where
  "py_open w name =
     (case files w name of
        Some (File bs) \<Rightarrow>
          Inr (\<lparr>fname = name, fcontent = bs, fpos = 0\<rparr>, w\<lparr>handles := name # handles w\<rparr>)
      | _ \<Rightarrow> Inl IOError)"

text \<open>\<open>f.read(n)\<close>: at most \<open>n\<close> bytes from the position, which advances past them.\<close>

definition file_read :: "fileobj \<Rightarrow> nat \<Rightarrow> byte list \<times> fileobj" where
  "file_read f n =
     (let buffer = take n (drop (fpos f) (fcontent f))
      in (buffer, f\<lparr>fpos := fpos f + length buffer\<rparr>))"

text \<open>\<open>f.seek(offset, 0)\<close>: an absolute position, also past the end.\<close>

definition file_seek :: "fileobj \<Rightarrow> nat \<Rightarrow> fileobj" where
  "file_seek f offset = f\<lparr>fpos := offset\<rparr>"

text \<open>\<open>f.close()\<close>: the handle of this file object is released.\<close>

definition file_close :: "world \<Rightarrow> fileobj \<Rightarrow> world" where
  "file_close w f = w\<lparr>handles := remove1 (fname f) (handles w)\<rparr>"

subsection \<open>struct.unpack and string formatting\<close>

text \<open>
  The source unpacks with the format \<open>'q'\<close>, which has no byte-order prefix: a signed
  64-bit integer in the byte order of the host. The host's byte order is a parameter.
\<close>

datatype byteorder = LittleEndian | BigEndian

definition struct_calcsize_q :: nat where
  "struct_calcsize_q = 8"

definition unsigned_le :: "byte list \<Rightarrow> int" where
  "unsigned_le bs = foldr (\<lambda>b v. uint b + 256 * v) bs 0"

definition struct_unpack_q :: "byteorder \<Rightarrow> byte list \<Rightarrow> error + int" where
  "struct_unpack_q bo buffer =
     (if length buffer \<noteq> struct_calcsize_q then Inl StructError
      else
        let u = unsigned_le (case bo of LittleEndian \<Rightarrow> buffer | BigEndian \<Rightarrow> rev buffer)
        in Inr (if u < 2 ^ 63 then u else u - 2 ^ 64))"

definition hex_digit :: "nat \<Rightarrow> char" where
  "hex_digit d = ''0123456789abcdef'' ! d"

fun hex_of_nat :: "nat \<Rightarrow> string" where
  "hex_of_nat n = (if n < 16 then [hex_digit n] else hex_of_nat (n div 16) @ [hex_digit (n mod 16)])"

declare hex_of_nat.simps [simp del]

text \<open>
  \<open>"%016x" % n\<close>: lowercase hexadecimal, padded with zeros to sixteen characters; a
  negative number keeps its sign in front of the zeros, and a number of more than
  sixteen digits is not cut.
\<close>

definition format_016x :: "int \<Rightarrow> string" where
  "format_016x n =
     (let sign = (if n < 0 then ''-'' else '''');
          body = hex_of_nat (nat \<bar>n\<bar>)
      in sign @ replicate (16 - length sign - length body) (CHR ''0'') @ body)"

section \<open>The fingerprint of a file\<close>

text \<open>
  One of the two loops of \<open>calculate_hash_for_file\<close>:
  \<^verbatim>\<open>
    for x in range(65536//bytesize):
        buffer = f.read(bytesize)
        (l_value,)= struct.unpack(longlongformat, buffer)
        hash += l_value
        hash = hash & 0xFFFFFFFFFFFFFFFF
  \<close>
  with the number of iterations left as its first argument.
\<close>

fun hash_loop :: "nat \<Rightarrow> byteorder \<Rightarrow> fileobj \<Rightarrow> int \<Rightarrow> error + (fileobj \<times> int)" where
  "hash_loop 0 bo f hash = Inr (f, hash)"
| "hash_loop (Suc n) bo f hash =
     (let (buffer, f') = file_read f struct_calcsize_q
      in case struct_unpack_q bo buffer of
           Inl e \<Rightarrow> Inl e
         | Inr l_value \<Rightarrow> hash_loop n bo f' ((hash + l_value) AND 0xFFFFFFFFFFFFFFFF))"

text \<open>
  \<open>calculate_hash_for_file\<close>, returning the value or the exception together with the
  world it leaves. The file is opened before its size is looked at, and the only
  \<open>f.close()\<close> is the one after the second loop.
\<close>

definition calculate_hash_for_file :: "byteorder \<Rightarrow> world \<Rightarrow> string \<Rightarrow> (error + string) \<times> world" where
  "calculate_hash_for_file bo w name =
     (case py_open w name of
        Inl e \<Rightarrow> (Inl e, w)
      | Inr (f, w1) \<Rightarrow>
          (case os_path_getsize (files w1) name of
             Inl e \<Rightarrow> (Inl e, w1)
           | Inr filesize \<Rightarrow>
               if filesize < 65536 * 2 then (Inr ''SizeError'', w1)
               else
                 (case hash_loop (65536 div struct_calcsize_q) bo f (int filesize) of
                    Inl e \<Rightarrow> (Inl e, w1)
                  | Inr (f1, hash1) \<Rightarrow>
                      (case hash_loop (65536 div struct_calcsize_q) bo
                              (file_seek f1 (nat (max 0 (int filesize - 65536)))) hash1 of
                         Inl e \<Rightarrow> (Inl e, w1)
                       | Inr (f2, hash2) \<Rightarrow> (Inr (format_016x hash2), file_close w1 f2)))))"

subsection \<open>The fingerprint as the specification words it\<close>

text \<open>
  The reference value, written from the specification and not from the code: a 64-bit
  accumulator that wraps, chunks of eight bytes read as signed little-endian integers,
  the head window and the tail window of 65536 bytes each, sixteen lowercase hexadecimal
  digits.
\<close>

fun chunks8 :: "nat \<Rightarrow> byte list \<Rightarrow> byte list list" where
  "chunks8 0 bs = []"
| "chunks8 (Suc n) bs = take 8 bs # chunks8 n (drop 8 bs)"

definition spec_signed_le64 :: "byte list \<Rightarrow> int" where
  "spec_signed_le64 chunk = sint (word_rcat (rev chunk) :: 64 word)"

definition spec_add :: "64 word \<Rightarrow> byte list \<Rightarrow> 64 word" where
  "spec_add h chunk = word_of_int (uint h + spec_signed_le64 chunk)"

definition spec_hex16 :: "64 word \<Rightarrow> string" where
  "spec_hex16 h = map (\<lambda>i. hex_digit (unat (drop_bit (4 * (15 - i)) h AND 15))) [0..<16]"

definition spec_fingerprint :: "byte list \<Rightarrow> string" where
  "spec_fingerprint bs =
     (let size = length bs;
          h0 = (of_nat size :: 64 word);
          h1 = foldl spec_add h0 (chunks8 8192 (take 65536 bs));
          h2 = foldl spec_add h1 (chunks8 8192 (take 65536 (drop (size - 65536) bs)))
      in spec_hex16 h2)"


definition hex_digits :: "nat \<Rightarrow> nat \<Rightarrow> string" where
  "hex_digits k n = map (\<lambda>i. hex_digit (n div 16 ^ (k - 1 - i) mod 16)) [0..<k]"

section \<open>Paths\<close>

text \<open>
  The functions of \<open>os.path\<close> the code calls, as the POSIX flavour of the standard
  library defines them. \<open>rfind1 c s\<close> is \<open>s.rfind(c) + 1\<close>: the position after the last
  \<open>c\<close>, or 0 when there is none.
\<close>

fun rfind1 :: "char \<Rightarrow> string \<Rightarrow> nat" where
  "rfind1 c [] = 0"
| "rfind1 c (x # xs) =
     (let r = rfind1 c xs in if 0 < r then Suc r else if x = c then 1 else 0)"

definition rstrip :: "char \<Rightarrow> string \<Rightarrow> string" where
  "rstrip c s = rev (dropWhile (\<lambda>x. x = c) (rev s))"

definition os_path_basename :: "string \<Rightarrow> string" where
  "os_path_basename p = drop (rfind1 (CHR ''/'') p) p"

definition os_path_dirname :: "string \<Rightarrow> string" where
  "os_path_dirname p =
     (let head = take (rfind1 (CHR ''/'') p) p
      in if head \<noteq> [] \<and> head \<noteq> replicate (length head) (CHR ''/'')
         then rstrip (CHR ''/'') head else head)"

text \<open>
  \<open>os.path.splitext\<close>: the extension starts at the last dot of the last path component,
  unless that component has nothing but dots in front of it.
\<close>

definition os_path_splitext :: "string \<Rightarrow> string \<times> string" where
  "os_path_splitext p =
     (let sep1 = rfind1 (CHR ''/'') p;
          dot1 = rfind1 (CHR ''.'') p
      in if sep1 < dot1 \<and> list_ex (\<lambda>c. c \<noteq> CHR ''.'') (drop sep1 (take (dot1 - 1) p))
         then (take (dot1 - 1) p, drop (dot1 - 1) p)
         else (p, []))"

definition os_path_join :: "string \<Rightarrow> string \<Rightarrow> string" where
  "os_path_join a b =
     (if b \<noteq> [] \<and> hd b = CHR ''/'' then b
      else if a = [] \<or> last a = CHR ''/'' then a @ b
      else a @ ''/'' @ b)"

text \<open>\<open>str.lower\<close> on the letters A to Z; every other character is kept.\<close>

definition lower_char :: "char \<Rightarrow> char" where
  "lower_char c =
     (let n = (of_char c :: nat) in if 65 \<le> n \<and> n \<le> 90 then char_of (n + 32) else c)"

definition py_lower :: "string \<Rightarrow> string" where
  "py_lower s = map lower_char s"

section \<open>The subtitle file name\<close>

text \<open>
  The loop of \<open>obtain_subtitle_filename\<close> over the names that are not overwritten:
  the first one that \<open>os.path.isfile\<close> rejects is returned.
\<close>

fun first_not_isfile :: "filesystem \<Rightarrow> string list \<Rightarrow> string option" where
  "first_not_isfile fs [] = None"
| "first_not_isfile fs (filename # filenames) =
     (if \<not> os_path_isfile fs filename then Some filename else first_not_isfile fs filenames)"

definition obtain_subtitle_filename :: "filesystem \<Rightarrow> string \<Rightarrow> string \<Rightarrow> string \<Rightarrow> string" where
  "obtain_subtitle_filename fs movie_filename language subtitle_ext =
     (let dirname = os_path_dirname movie_filename;
          basename = fst (os_path_splitext (os_path_basename movie_filename));
          filenames =
            [os_path_join dirname (basename @ subtitle_ext),
             os_path_join dirname (basename @ ''.'' @ language @ subtitle_ext)]
      in case first_not_isfile fs filenames of
           Some filename \<Rightarrow> filename
         | None \<Rightarrow> os_path_join dirname (basename @ ''.'' @ language @ ''.'' @ ''ss'' @ subtitle_ext))"

section \<open>Movie discovery\<close>

text \<open>
  \<open>find_movie_files\<close> is a generator: what a call yields is a list, together with the
  exception that ended it, if one did. The set \<open>returned\<close> is a local of each call, so the
  recursive call for a subdirectory starts with an empty set of its own, and what it
  yields is passed on without being added to the caller's set.

  The recursion follows the directories of the file system, which need not be a finite
  tree; the depth of the recursion is bounded by fuel, and \<open>None\<close> means the fuel ran
  out. The inner call is a parameter of the two loops.
\<close>

definition extensions :: "string set" where
  "extensions = {''.avi'', ''.mp4'', ''.mpg'', ''.mkv''}"

definition last4 :: "string \<Rightarrow> string" where
  "last4 name = drop (length name - 4) name"

fun names_loop ::
  "(string list \<Rightarrow> (string list \<times> error option) option) \<Rightarrow> filesystem \<Rightarrow> bool \<Rightarrow> string \<Rightarrow>
   string list \<Rightarrow> string set \<Rightarrow> (string list \<times> error option \<times> string set) option" where
  "names_loop inner fs recursive input_name [] returned = Some ([], None, returned)"
| "names_loop inner fs recursive input_name (name # names) returned =
     (let result = os_path_join input_name name
      in if last4 name \<in> extensions then
           (if result \<notin> returned then
              (case names_loop inner fs recursive input_name names (insert result returned) of
                 None \<Rightarrow> None
               | Some (ys, e, r) \<Rightarrow> Some (result # ys, e, r))
            else names_loop inner fs recursive input_name names returned)
         else if os_path_isdir fs result \<and> recursive then
           (case inner [result] of
              None \<Rightarrow> None
            | Some (xs, Some e) \<Rightarrow> Some (xs, Some e, returned)
            | Some (xs, None) \<Rightarrow>
                (case names_loop inner fs recursive input_name names returned of
                   None \<Rightarrow> None
                 | Some (ys, e, r) \<Rightarrow> Some (xs @ ys, e, r)))
         else names_loop inner fs recursive input_name names returned)"

fun inputs_loop ::
  "(string list \<Rightarrow> (string list \<times> error option) option) \<Rightarrow> filesystem \<Rightarrow> bool \<Rightarrow>
   string list \<Rightarrow> string set \<Rightarrow> (string list \<times> error option) option" where
  "inputs_loop inner fs recursive [] returned = Some ([], None)"
| "inputs_loop inner fs recursive (input_name # input_names) returned =
     (if os_path_isfile fs input_name \<and> input_name \<notin> returned then
        (case inputs_loop inner fs recursive input_names (insert input_name returned) of
           None \<Rightarrow> None
         | Some (ys, e) \<Rightarrow> Some (input_name # ys, e))
      else
        (case os_listdir fs input_name of
           Inl e \<Rightarrow> Some ([], Some e)
         | Inr names \<Rightarrow>
             (case names_loop inner fs recursive input_name names returned of
                None \<Rightarrow> None
              | Some (xs, Some e, r) \<Rightarrow> Some (xs, Some e)
              | Some (xs, None, r) \<Rightarrow>
                  (case inputs_loop inner fs recursive input_names r of
                     None \<Rightarrow> None
                   | Some (ys, e) \<Rightarrow> Some (xs @ ys, e)))))"

fun find_movie_files ::
  "nat \<Rightarrow> filesystem \<Rightarrow> string list \<Rightarrow> bool \<Rightarrow> (string list \<times> error option) option" where
  "find_movie_files 0 fs input_names recursive = None"
| "find_movie_files (Suc fuel) fs input_names recursive =
     inputs_loop (\<lambda>xs. find_movie_files fuel fs xs recursive) fs recursive input_names {}"


section \<open>Search queries\<close>

text \<open>\<open>str(n)\<close> and \<open>'%s' % n\<close> for an integer: its decimal digits.\<close>

fun str_nat :: "nat \<Rightarrow> string" where
  "str_nat n = (if n < 10 then [char_of (48 + n)] else str_nat (n div 10) @ [char_of (48 + n mod 10)])"

declare str_nat.simps [simp del]

definition str_int :: "int \<Rightarrow> string" where
  "str_int n = (if n < 0 then ''-'' @ str_nat (nat (- n)) else str_nat (nat n))"

text \<open>
  \<open>int(s)\<close> for a string: white space around the literal is dropped, one sign is
  allowed, and the rest must be decimal digits, at least one; anything else is a
  ValueError. (The underscores that Python 3.6 and later accept between digits are
  not modelled.)
\<close>

definition is_space :: "char \<Rightarrow> bool" where
  "is_space c = (c \<in> set [CHR '' '', CHR 0x09, CHR 0x0A, CHR 0x0B, CHR 0x0C, CHR 0x0D])"

definition strip :: "string \<Rightarrow> string" where
  "strip s = rev (dropWhile is_space (rev (dropWhile is_space s)))"

definition is_digit :: "char \<Rightarrow> bool" where
  "is_digit c = (let n = (of_char c :: nat) in 48 \<le> n \<and> n \<le> 57)"

definition digits_value :: "string \<Rightarrow> nat" where
  "digits_value s = foldl (\<lambda>v c. 10 * v + (of_char c - 48)) 0 s"

definition py_int :: "string \<Rightarrow> error + int" where
  "py_int s =
     (let t = strip s;
          negative = (t \<noteq> [] \<and> hd t = CHR ''-'');
          body = (if t \<noteq> [] \<and> (hd t = CHR ''-'' \<or> hd t = CHR ''+'') then tl t else t)
      in if body \<noteq> [] \<and> list_all is_digit body
         then Inr (if negative then - int (digits_value body) else int (digits_value body))
         else Inl ValueError)"

text \<open>
  What \<open>guessit.guess_file_info\<close> returns, as far as the code reads it. The guesser is
  an external library and a parameter of the model. A field is \<open>None\<close> when the key is
  absent.
\<close>

record guess =
  g_type :: "string option"
  g_series :: "string option"
  g_title :: "string option"
  g_releaseGroup :: "string option"
  g_year :: "int option"
  g_season :: "int option"
  g_episodeNumber :: "int option"

record guessit_query =
  query :: string
  season :: "int option"
  episode :: "int option"
  sublanguageid :: string

datatype search_query =
    NameQuery guessit_query
  | HashQuery string string string  \<comment> \<open>moviehash, moviebytesize, sublanguageid\<close>

fun join_space :: "string list \<Rightarrow> string" where
  "join_space [] = []"
| "join_space [x] = x"
| "join_space (x # y # zs) = x @ '' '' @ join_space (y # zs)"

text \<open>
  \<open>extract_query\<close>: the values that are present and true (a non-empty string, a year
  other than 0), each between double quotes, joined by single spaces.
\<close>

definition quoted :: "string \<Rightarrow> string" where
  "quoted v = [CHR 0x22] @ v @ [CHR 0x22]"

definition truthy_str :: "string option \<Rightarrow> string list" where
  "truthy_str v = (case v of Some s \<Rightarrow> (if s \<noteq> [] then [quoted s] else []) | None \<Rightarrow> [])"

definition truthy_int :: "int option \<Rightarrow> string list" where
  "truthy_int v = (case v of Some n \<Rightarrow> (if n \<noteq> 0 then [quoted (str_int n)] else []) | None \<Rightarrow> [])"

definition obtain_guessit_query :: "(string \<Rightarrow> guess) \<Rightarrow> string \<Rightarrow> string \<Rightarrow> guessit_query" where
  "obtain_guessit_query guessit movie_filename language =
     (let g = guessit (os_path_basename movie_filename)
      in if g_type g = Some ''episode'' then
           \<lparr>query = join_space (truthy_str (g_series g) @ truthy_str (g_title g) @ truthy_str (g_releaseGroup g)),
            season = g_season g, episode = g_episodeNumber g, sublanguageid = language\<rparr>
         else if g_type g = Some ''movie'' then
           \<lparr>query = join_space (truthy_str (g_title g) @ truthy_int (g_year g)),
            season = None, episode = None, sublanguageid = language\<rparr>
         else
           \<lparr>query = os_path_basename movie_filename,
            season = None, episode = None, sublanguageid = language\<rparr>)"

text \<open>
  \<open>obtain_movie_hash_query\<close>: whatever string \<open>calculate_hash_for_file\<close> returns
  becomes the \<open>moviehash\<close> of the query.
\<close>

definition obtain_movie_hash_query ::
  "byteorder \<Rightarrow> world \<Rightarrow> string \<Rightarrow> string \<Rightarrow> (error + search_query) \<times> world" where
  "obtain_movie_hash_query bo w movie_filename language =
     (case calculate_hash_for_file bo w movie_filename of
        (Inl e, w1) \<Rightarrow> (Inl e, w1)
      | (Inr h, w1) \<Rightarrow>
          (case os_path_getsize (files w1) movie_filename of
             Inl e \<Rightarrow> (Inl e, w1)
           | Inr n \<Rightarrow> (Inr (HashQuery h (str_nat n) language), w1)))"

section \<open>Search results\<close>

text \<open>
  A search result is the dictionary the server sends: keys and string values, and a key
  may be missing.
\<close>

type_synonym search_result = "(string \<times> string) list"

definition getitem :: "search_result \<Rightarrow> string \<Rightarrow> error + string" where
  "getitem x k = (case map_of x k of None \<Rightarrow> Inl KeyError | Some v \<Rightarrow> Inr v)"

text \<open>\<open>(int(x['SeriesSeason']), int(x['SeriesEpisode']))\<close>, evaluated left to right.\<close>

definition season_episode :: "search_result \<Rightarrow> error + (int \<times> int)" where
  "season_episode x =
     (case getitem x ''SeriesSeason'' of
        Inl e \<Rightarrow> Inl e
      | Inr s \<Rightarrow>
          (case py_int s of
             Inl e \<Rightarrow> Inl e
           | Inr a \<Rightarrow>
               (case getitem x ''SeriesEpisode'' of
                  Inl e \<Rightarrow> Inl e
                | Inr t \<Rightarrow> (case py_int t of Inl e \<Rightarrow> Inl e | Inr b \<Rightarrow> Inr (a, b)))))"

text \<open>The list comprehension of \<open>filter_bad_results\<close>; the first exception ends it.\<close>

fun keep_matching :: "int \<times> int \<Rightarrow> search_result list \<Rightarrow> error + search_result list" where
  "keep_matching guessit_season_episode [] = Inr []"
| "keep_matching guessit_season_episode (x # xs) =
     (case season_episode x of
        Inl e \<Rightarrow> Inl e
      | Inr se \<Rightarrow>
          (case keep_matching guessit_season_episode xs of
             Inl e \<Rightarrow> Inl e
           | Inr ys \<Rightarrow> Inr (if se = guessit_season_episode then x # ys else ys)))"

definition filter_bad_results :: "search_result list \<Rightarrow> guessit_query \<Rightarrow> error + search_result list" where
  "filter_bad_results search_results guessit_query =
     (case (season guessit_query, episode guessit_query) of
        (Some s, Some e) \<Rightarrow> keep_matching (s, e) search_results
      | _ \<Rightarrow> Inr search_results)"

section \<open>The session with the search server\<close>

text \<open>
  The remote calls the code makes, in the order it makes them, are recorded in a trace.
  The server is a parameter: what each call answers may depend on the calls made before
  it, and every call may fail. \<open>srv_LogIn\<close> answers the \<open>token\<close> entry of the login
  dictionary (\<open>None\<close> when the key is missing); \<open>srv_SearchSubtitles\<close> answers the
  \<open>data\<close> entry of the response (\<open>None\<close> when the key is missing, the empty list
  for a false value).
\<close>

datatype rpc_call =
    LogIn string string string string
  | SearchSubtitles string "search_query list"
  | LogOut string

record server =
  srv_LogIn :: "rpc_call list \<Rightarrow> error + string option"
  srv_SearchSubtitles :: "rpc_call list \<Rightarrow> string \<Rightarrow> search_query list \<Rightarrow> error + search_result list option"
  srv_LogOut :: "rpc_call list \<Rightarrow> string \<Rightarrow> error + unit"

text \<open>
  The end of the loop body of \<open>query_open_subtitles\<close>:
  \<^verbatim>\<open>
    if search_results:
        search_results = filter_bad_results(search_results, guessit_query)
        result[movie_filename] = search_results
  \<close>
\<close>

definition store_results ::
  "(string \<rightharpoonup> search_result list) \<Rightarrow> string \<Rightarrow> search_result list \<Rightarrow> guessit_query \<Rightarrow>
   error + (string \<rightharpoonup> search_result list)" where
  "store_results result movie_filename search_results guessit_query =
     (if search_results \<noteq> [] then
        (case filter_bad_results search_results guessit_query of
           Inl e \<Rightarrow> Inl e
         | Inr filtered \<Rightarrow> Inr (result(movie_filename \<mapsto> filtered)))
      else Inr result)"

text \<open>The loop of \<open>query_open_subtitles\<close>: one \<open>SearchSubtitles\<close> call in each round.\<close>

fun query_loop ::
  "server \<Rightarrow> (string \<Rightarrow> guess) \<Rightarrow> byteorder \<Rightarrow> string \<Rightarrow> string \<Rightarrow> string list \<Rightarrow>
   (string \<rightharpoonup> search_result list) \<Rightarrow> world \<Rightarrow> rpc_call list \<Rightarrow>
   (error + (string \<rightharpoonup> search_result list)) \<times> world \<times> rpc_call list" where
  "query_loop srv guessit bo token language [] result w tr = (Inr result, w, tr)"
| "query_loop srv guessit bo token language (movie_filename # movie_filenames) result w tr =
     (let guessit_query = obtain_guessit_query guessit movie_filename language
      in case obtain_movie_hash_query bo w movie_filename language of
           (Inl e, w1) \<Rightarrow> (Inl e, w1, tr)
         | (Inr hash_query, w1) \<Rightarrow>
             (let search_queries = [NameQuery guessit_query, hash_query];
                  tr1 = tr @ [SearchSubtitles token search_queries]
              in case srv_SearchSubtitles srv tr token search_queries of
                   Inl e \<Rightarrow> (Inl e, w1, tr1)
                 | Inr None \<Rightarrow> (Inl KeyError, w1, tr1)
                 | Inr (Some search_results) \<Rightarrow>
                     (case store_results result movie_filename search_results guessit_query of
                        Inl e \<Rightarrow> (Inl e, w1, tr1)
                      | Inr result' \<Rightarrow>
                          query_loop srv guessit bo token language movie_filenames result' w1 tr1)))"

text \<open>
  \<open>query_open_subtitles\<close>: the login and the reading of the token come before the
  \<open>try\<close>; the logout is the \<open>finally\<close> block, so it runs however the loop ends, and an
  exception it raises replaces the outcome of the loop.
\<close>

definition query_open_subtitles ::
  "server \<Rightarrow> (string \<Rightarrow> guess) \<Rightarrow> byteorder \<Rightarrow> string list \<Rightarrow> string \<Rightarrow> world \<Rightarrow> rpc_call list \<Rightarrow>
   (error + (string \<rightharpoonup> search_result list)) \<times> world \<times> rpc_call list" where
  "query_open_subtitles srv guessit bo movie_filenames language w tr =
     (let tr1 = tr @ [LogIn [] [] ''en'' ''OS Test User Agent'']
      in case srv_LogIn srv tr of
           Inl e \<Rightarrow> (Inl e, w, tr1)
         | Inr None \<Rightarrow> (Inl KeyError, w, tr1)
         | Inr (Some token) \<Rightarrow>
             (case query_loop srv guessit bo token language movie_filenames Map.empty w tr1 of
                (outcome, w2, tr2) \<Rightarrow>
                  (case srv_LogOut srv tr2 token of
                     Inl e \<Rightarrow> (Inl e, w2, tr2 @ [LogOut token])
                   | Inr _ \<Rightarrow> (outcome, w2, tr2 @ [LogOut token]))))"

text \<open>
  The body of the loop of \<open>find_subtitles\<close>: the result chosen for a movie is the first
  of the list stored for it, and there is none when the list is empty or absent.
\<close>

definition chosen_result :: "(string \<rightharpoonup> search_result list) \<Rightarrow> string \<Rightarrow> search_result option" where
  "chosen_result all_search_results movie_filename =
     (case (case all_search_results movie_filename of None \<Rightarrow> [] | Some rs \<Rightarrow> rs) of
        [] \<Rightarrow> None
      | search_result # _ \<Rightarrow> Some search_result)"

type_synonym subtitle_match = "string \<times> string option \<times> string option"

definition subtitle_entry ::
  "(string \<rightharpoonup> search_result list) \<Rightarrow> string \<Rightarrow> error + subtitle_match" where
  "subtitle_entry all_search_results movie_filename =
     (case chosen_result all_search_results movie_filename of
        Some search_result \<Rightarrow>
          (case getitem search_result ''SubDownloadLink'' of
             Inl e \<Rightarrow> Inl e
           | Inr link \<Rightarrow>
               (case getitem search_result ''SubFormat'' of
                  Inl e \<Rightarrow> Inl e
                | Inr fmt \<Rightarrow> Inr (movie_filename, Some link, Some (''.'' @ fmt))))
      | None \<Rightarrow> Inr (movie_filename, None, None))"

fun subtitle_entries ::
  "(string \<rightharpoonup> search_result list) \<Rightarrow> string list \<Rightarrow> subtitle_match list \<times> error option" where
  "subtitle_entries all_search_results [] = ([], None)"
| "subtitle_entries all_search_results (movie_filename # movie_filenames) =
     (case subtitle_entry all_search_results movie_filename of
        Inl e \<Rightarrow> ([], Some e)
      | Inr m \<Rightarrow>
          (case subtitle_entries all_search_results movie_filenames of
             (ms, e) \<Rightarrow> (m # ms, e)))"

text \<open>\<open>find_subtitles\<close>, a generator: what it yields, and the exception that ended it.\<close>

definition find_subtitles ::
  "server \<Rightarrow> (string \<Rightarrow> guess) \<Rightarrow> byteorder \<Rightarrow> string list \<Rightarrow> string \<Rightarrow> world \<Rightarrow> rpc_call list \<Rightarrow>
   (subtitle_match list \<times> error option) \<times> world \<times> rpc_call list" where
  "find_subtitles srv guessit bo movie_filenames language w tr =
     (case query_open_subtitles srv guessit bo movie_filenames language w tr of
        (Inl e, w', tr') \<Rightarrow> (([], Some e), w', tr')
      | (Inr all_search_results, w', tr') \<Rightarrow>
          (subtitle_entries all_search_results movie_filenames, w', tr'))"


section \<open>The configuration\<close>

record configuration =
  cfg_language :: string
  cfg_recursive :: bool
  cfg_skip :: bool
  cfg_mkv :: bool

text \<open>\<open>Configuration()\<close> with the defaults of \<open>__init__\<close>.\<close>

definition Configuration :: configuration where
  "Configuration = \<lparr>cfg_language = ''eng'', cfg_recursive = False, cfg_skip = False, cfg_mkv = False\<rparr>"

definition str_bool :: "bool \<Rightarrow> string" where
  "str_bool b = (if b then ''True'' else ''False'')"

text \<open>\<open>__str__\<close>: four lines, joined by newlines.\<close>

definition Configuration_str :: "configuration \<Rightarrow> string" where
  "Configuration_str c =
     ''language = '' @ cfg_language c @ [CHR 0x0A] @
     ''recursive = '' @ str_bool (cfg_recursive c) @ [CHR 0x0A] @
     ''skip = '' @ str_bool (cfg_skip c) @ [CHR 0x0A] @
     ''mkv = '' @ str_bool (cfg_mkv c)"

text \<open>
  The class body defines \<open>__init__\<close>, \<open>__eq__\<close>, \<open>__ne__\<close>, \<open>__repr__\<close> and
  \<open>__str__\<close>, and no other method. The two methods that \<open>_change_configuration\<close>
  calls on a Configuration are looked up here: the class has neither, and calling a
  method that is not there raises AttributeError.
\<close>

definition Configuration_set_config_from_lines ::
  "(configuration \<Rightarrow> string list \<Rightarrow> error + configuration) option" where
  "Configuration_set_config_from_lines = None"

definition Configuration_get_lines :: "(configuration \<Rightarrow> string list) option" where
  "Configuration_get_lines = None"

text \<open>
  \<open>RawConfigParser.getboolean\<close>: the value, in lower case, must be one of eight words.
\<close>

definition getboolean :: "string \<Rightarrow> error + bool" where
  "getboolean v =
     (let l = py_lower v
      in if l \<in> set [''1'', ''yes'', ''true'', ''on''] then Inr True
         else if l \<in> set [''0'', ''no'', ''false'', ''off''] then Inr False
         else Inl ValueError)"

definition read_bool_if_defined :: "(string \<rightharpoonup> string) \<Rightarrow> string \<Rightarrow> bool \<Rightarrow> error + bool" where
  "read_bool_if_defined p option current =
     (case p option of None \<Rightarrow> Inr current | Some v \<Rightarrow> getboolean v)"

text \<open>
  \<open>load_configuration\<close>. The parser of the standard library is a parameter:
  \<open>read_ini\<close> maps the bytes of a file to the options of its section \<open>ss\<close>, or to the
  exception the parser raises. A file that cannot be opened is skipped by
  \<open>RawConfigParser.read\<close>, which leaves the section empty.
\<close>

definition load_configuration ::
  "(byte list \<Rightarrow> error + (string \<rightharpoonup> string)) \<Rightarrow> filesystem \<Rightarrow> string \<Rightarrow> error + configuration" where
  "load_configuration read_ini fs filename =
     (case (case fs filename of Some (File bs) \<Rightarrow> read_ini bs | _ \<Rightarrow> Inr Map.empty) of
        Inl e \<Rightarrow> Inl e
      | Inr p \<Rightarrow>
          (let config = Configuration;
               config1 = (case p ''language'' of
                            Some v \<Rightarrow> config\<lparr>cfg_language := v\<rparr>
                          | None \<Rightarrow> config)
           in case read_bool_if_defined p ''recursive'' (cfg_recursive config1) of
                Inl e \<Rightarrow> Inl e
              | Inr r \<Rightarrow>
                  (case read_bool_if_defined p ''skip'' (cfg_skip config1) of
                     Inl e \<Rightarrow> Inl e
                   | Inr s \<Rightarrow>
                       (case read_bool_if_defined p ''mkv'' (cfg_mkv config1) of
                          Inl e \<Rightarrow> Inl e
                        | Inr m \<Rightarrow>
                            Inr (config1\<lparr>cfg_recursive := r, cfg_skip := s, cfg_mkv := m\<rparr>)))))"

definition encode :: "string \<Rightarrow> byte list" where
  "encode s = map (\<lambda>c. of_nat (of_char c)) s"

text \<open>
  \<open>_change_configuration\<close>, with the file system it leaves. \<open>open(filename, 'w')\<close>
  empties the file before anything is written to it.
\<close>

definition change_configuration ::
  "(byte list \<Rightarrow> error + (string \<rightharpoonup> string)) \<Rightarrow> filesystem \<Rightarrow> string list \<Rightarrow> string \<Rightarrow>
   (error + configuration) \<times> filesystem" where
  "change_configuration read_ini fs params filename =
     (case load_configuration read_ini fs filename of
        Inl e \<Rightarrow> (Inl e, fs)
      | Inr config \<Rightarrow>
          (case Configuration_set_config_from_lines of
             None \<Rightarrow> (Inl AttributeError, fs)
           | Some set_config_from_lines \<Rightarrow>
               (case set_config_from_lines config params of
                  Inl e \<Rightarrow> (Inl e, fs)
                | Inr config' \<Rightarrow>
                    (case fs filename of
                       Some (Directory _) \<Rightarrow> (Inl IOError, fs)
                     | _ \<Rightarrow>
                         (case Configuration_get_lines of
                            None \<Rightarrow> (Inl AttributeError, fs(filename \<mapsto> File []))
                          | Some get_lines \<Rightarrow>
                              (Inr config',
                               fs(filename \<mapsto>
                                  File (encode (concat (map (\<lambda>line. line @ [CHR 0x0A])
                                                            (get_lines config')))))))))))"

section \<open>Merging into a container\<close>

text \<open>
  The merge tool is an external program and a parameter: given the invocations made so
  far and the command line, it answers an exit code and its output. Every invocation is
  recorded.
\<close>

type_synonym tool = "string list list \<Rightarrow> string list \<Rightarrow> int \<times> string"

definition check_output :: "tool \<Rightarrow> string list list \<Rightarrow> string list \<Rightarrow> (error + string) \<times> string list list" where
  "check_output run invocations params =
     (case run invocations params of
        (returncode, output) \<Rightarrow>
          (if returncode \<noteq> 0 then Inl (CalledProcessError output) else Inr output,
           invocations @ [params]))"

definition mkvmerge_params :: "string \<Rightarrow> string \<Rightarrow> string \<Rightarrow> string list" where
  "mkvmerge_params movie_filename subtitle_filename language =
     [''mkvmerge'',
      ''--output'', fst (os_path_splitext movie_filename) @ ''.mkv'',
      movie_filename,
      ''--language'', ''0:'' @ language,
      subtitle_filename]"

text \<open>
  \<open>embed_mkv\<close>: a failed merge is caught and returned as \<open>(False, output)\<close>; any other
  exception passes through.
\<close>

definition embed_mkv ::
  "tool \<Rightarrow> string list list \<Rightarrow> string \<Rightarrow> string \<Rightarrow> string \<Rightarrow> (error + bool \<times> string) \<times> string list list" where
  "embed_mkv run invocations movie_filename subtitle_filename language =
     (case check_output run invocations (mkvmerge_params movie_filename subtitle_filename language) of
        (Inl (CalledProcessError output), invocations') \<Rightarrow> (Inr (False, output), invocations')
      | (Inl e, invocations') \<Rightarrow> (Inl e, invocations')
      | (Inr _, invocations') \<Rightarrow> (Inr (True, []), invocations'))"

text \<open>\<open>print_status\<close> of \<open>main\<close>; the stream is the list of the lines printed.\<close>

definition status_line :: "string \<Rightarrow> string \<Rightarrow> string" where
  "status_line text status =
     (let spaces = 70 - int (length text);
          spaces' = (if spaces < 2 then 2 else spaces)
      in text @ replicate (nat spaces') (CHR '' '') @ status)"

definition print_status :: "string list \<Rightarrow> string \<Rightarrow> string \<Rightarrow> string list" where
  "print_status stream text status = stream @ [status_line text status]"

definition is_mkv :: "string \<Rightarrow> bool" where
  "is_mkv movie_filename = (py_lower (snd (os_path_splitext movie_filename)) = ''.mkv'')"

type_synonym movie_match = "string \<times> string \<times> string \<times> string"

record embedding =
  stream :: "string list"
  invocations :: "string list list"
  failures :: "(string \<times> string) list"

text \<open>
  The loop of \<open>main\<close> over the matches when merging is enabled:
  \<^verbatim>\<open>
    for (movie_filename, subtitle_url, subtitle_ext, subtitle_filename) in matches:
        if os.path.splitext(movie_filename)[1].lower() != u'.mkv':
            status, output = embed_mkv(movie_filename, subtitle_filename, config.language)
            output_filename = os.path.splitext(movie_filename)[0] + u'.mkv'
            if not status:
                failures.append((movie_filename, output))
            status = 'DONE' if status else 'ERROR'
            print_status(' - %s' % os.path.basename(output_filename), status)
        else:
            print_status(' - %s' % os.path.basename(movie_filename), 'skipped')
  \<close>
\<close>

fun embed_loop :: "tool \<Rightarrow> string \<Rightarrow> movie_match list \<Rightarrow> embedding \<Rightarrow> error option \<times> embedding" where
  "embed_loop run language [] st = (None, st)"
| "embed_loop run language ((movie_filename, subtitle_url, subtitle_ext, subtitle_filename) # matches) st =
     (if \<not> is_mkv movie_filename then
        (case embed_mkv run (invocations st) movie_filename subtitle_filename language of
           (Inl e, invocations') \<Rightarrow> (Some e, st\<lparr>invocations := invocations'\<rparr>)
         | (Inr (status, output), invocations') \<Rightarrow>
             (let output_filename = fst (os_path_splitext movie_filename) @ ''.mkv'';
                  failures' = (if \<not> status then failures st @ [(movie_filename, output)] else failures st);
                  status' = (if status then ''DONE'' else ''ERROR'')
              in embed_loop run language matches
                   \<lparr>stream = print_status (stream st) ('' - '' @ os_path_basename output_filename) status',
                    invocations = invocations',
                    failures = failures'\<rparr>))
      else
        embed_loop run language matches
          (st\<lparr>stream := print_status (stream st) ('' - '' @ os_path_basename movie_filename) ''skipped''\<rparr>))"

text \<open>
  The last block of \<open>main\<close>, from \<open>if config.mkv:\<close> to the report of the failures.
  \<open>header = print(...)\<close> prints the line of underscores and binds \<open>None\<close>, which the
  next \<open>print\<close> writes out.
\<close>

fun print_failures :: "string list \<Rightarrow> (string \<times> string) list \<Rightarrow> string list" where
  "print_failures out [] = out"
| "print_failures out ((movie_filename, output) # fs) =
     print_failures (out @ ['':{'' @ movie_filename @ ''}:'', output]) fs"

definition main_embedding ::
  "configuration \<Rightarrow> tool \<Rightarrow> movie_match list \<Rightarrow> string list \<Rightarrow> string list list \<Rightarrow> error option \<times> embedding" where
  "main_embedding config run matches out invocations0 =
     (if cfg_mkv config then
        (case embed_loop run (cfg_language config) matches
                \<lparr>stream = out @ [[], ''Embedding MKV...''], invocations = invocations0, failures = []\<rparr> of
           (Some e, st) \<Rightarrow> (Some e, st)
         | (None, st) \<Rightarrow>
             (None,
              if failures st \<noteq> [] then
                st\<lparr>stream := print_failures (stream st @ [replicate 80 (CHR ''_''), ''None'']) (failures st)\<rparr>
              else st))
      else (None, \<lparr>stream = out, invocations = invocations0, failures = []\<rparr>))"


section \<open>Observations\<close>

text \<open>What is read off a trace: the search calls, and what a search call carries.\<close>

definition is_search :: "rpc_call \<Rightarrow> bool" where
  "is_search c = (case c of SearchSubtitles _ _ \<Rightarrow> True | _ \<Rightarrow> False)"

definition name_query_of :: "rpc_call \<Rightarrow> guessit_query option" where
  "name_query_of c = (case c of SearchSubtitles _ (NameQuery q # _) \<Rightarrow> Some q | _ \<Rightarrow> None)"

definition pair_of_queries :: "string \<Rightarrow> string \<Rightarrow> rpc_call \<Rightarrow> bool" where
  "pair_of_queries token language c =
     (case c of
        SearchSubtitles t [NameQuery q, HashQuery h n l] \<Rightarrow> t = token \<and> l = language
      | _ \<Rightarrow> False)"


section \<open>Example inputs\<close>

text \<open>A file of 131072 bytes, all of them 255, and a file of three bytes.\<close>

definition big_world :: world where
  "big_world = \<lparr>files = [''movie.avi'' \<mapsto> File (replicate 131072 255)], handles = []\<rparr>"

definition small_world :: world where
  "small_world = \<lparr>files = [''small.avi'' \<mapsto> File [1, 2, 3]], handles = []\<rparr>"

text \<open>
  A directory where the first candidate name of \<open>movie.mkv\<close> is itself a directory,
  and one where all three candidate names of \<open>/x/movie.mkv\<close> are regular files.
\<close>

definition dir_fs :: filesystem where
  "dir_fs = [''movie.srt'' \<mapsto> Directory []]"

definition full_fs :: filesystem where
  "full_fs = [''/x/movie.srt'' \<mapsto> File [], ''/x/movie.eng.srt'' \<mapsto> File [],
              ''/x/movie.eng.ss.srt'' \<mapsto> File []]"

text \<open>
  Two search results of one series, for the episodes 2 and 3 of season 1, and a query
  for an episode.
\<close>

definition result_1_2 :: search_result where
  "result_1_2 = [(''SeriesSeason'', ''1''), (''SeriesEpisode'', ''2''),
                 (''SubDownloadLink'', ''http://dl/12.gz''), (''SubFormat'', ''srt'')]"

definition result_1_3 :: search_result where
  "result_1_3 = [(''SeriesSeason'', ''1''), (''SeriesEpisode'', ''3''),
                 (''SubDownloadLink'', ''http://dl/13.gz''), (''SubFormat'', ''sub'')]"

definition episode_query :: "int \<Rightarrow> int \<Rightarrow> guessit_query" where
  "episode_query s e = \<lparr>query = ''show'', season = Some s, episode = Some e, sublanguageid = ''eng''\<rparr>"

text \<open>
  A guesser that recognises nothing and one that sees episode 3 of season 1 in every
  name; two movies of no bytes; and four servers: one that answers every call and finds
  nothing, one that finds the two results above, one whose logout fails, one whose search
  fails.
\<close>

definition no_guess :: "string \<Rightarrow> guess" where
  "no_guess name = \<lparr>g_type = None, g_series = None, g_title = None, g_releaseGroup = None,
                     g_year = None, g_season = None, g_episodeNumber = None\<rparr>"

definition episode_guess :: "string \<Rightarrow> guess" where
  "episode_guess name = \<lparr>g_type = Some ''episode'', g_series = Some ''show'', g_title = None,
                          g_releaseGroup = None, g_year = None, g_season = Some 1,
                          g_episodeNumber = Some 3\<rparr>"

definition two_world :: world where
  "two_world = \<lparr>files = [''a.avi'' \<mapsto> File [], ''b.avi'' \<mapsto> File []], handles = []\<rparr>"

definition quiet_server :: server where
  "quiet_server = \<lparr>srv_LogIn = (\<lambda>tr. Inr (Some ''tok'')),
                    srv_SearchSubtitles = (\<lambda>tr token qs. Inr (Some [])),
                    srv_LogOut = (\<lambda>tr token. Inr ())\<rparr>"

definition finding_server :: server where
  "finding_server =
     quiet_server\<lparr>srv_SearchSubtitles := (\<lambda>tr token qs. Inr (Some [result_1_2, result_1_3]))\<rparr>"

definition bad_logout_server :: server where
  "bad_logout_server = quiet_server\<lparr>srv_LogOut := (\<lambda>tr token. Inl (Fault ''logout''))\<rparr>"

definition bad_search_server :: server where
  "bad_search_server = quiet_server\<lparr>srv_SearchSubtitles := (\<lambda>tr token qs. Inl (Fault ''search''))\<rparr>"

text \<open>
  A directory \<open>d\<close> with a subdirectory \<open>s\<close> that holds one movie; a merge tool that
  always fails; a configuration with merging enabled; and two matches, the first for a
  movie that is already an \<open>.mkv\<close> (in upper case).
\<close>

definition nested_fs :: filesystem where
  "nested_fs = [''d'' \<mapsto> Directory [''s''], ''d/s'' \<mapsto> Directory [''a.avi''],
                ''d/s/a.avi'' \<mapsto> File []]"

definition failing_tool :: tool where
  "failing_tool invs params = (2, ''Error: no source files were given.'')"

definition mkv_config :: configuration where
  "mkv_config = Configuration\<lparr>cfg_mkv := True\<rparr>"

definition two_matches :: "movie_match list" where
  "two_matches = [(''a.MKV'', ''http://dl/1.gz'', ''.srt'', ''a.srt''),
                  (''b.avi'', ''http://dl/2.gz'', ''.srt'', ''b.srt'')]"

section \<open>The fingerprint: refinement of the reference\<close>

lemma mask64: "(x::int) AND 0xFFFFFFFFFFFFFFFF = x mod 2 ^ 64"
proof -
  have m: "(0xFFFFFFFFFFFFFFFF::int) = mask 64" by (simp add: mask_eq_exp_minus_1)
  have "x AND mask 64 = x mod 2 ^ 64" by (simp add: take_bit_eq_mod flip: take_bit_eq_mask)
  then show ?thesis unfolding m .
qed

lemma unsigned_le_horner: "unsigned_le bs = horner_sum uint 256 bs"
  by (simp add: unsigned_le_def horner_sum_foldr)

lemma unsigned_le_bounds: "0 \<le> unsigned_le bs \<and> unsigned_le bs < 256 ^ length bs"
proof (induction bs)
  case Nil
  then show ?case by (simp add: unsigned_le_def)
next
  case (Cons b bs)
  have b: "0 \<le> uint b" "uint b < 256" using uint_bounded [of b] by simp_all
  have eq: "unsigned_le (b # bs) = uint b + 256 * unsigned_le bs"
    by (simp add: unsigned_le_def)
  from Cons b show ?case unfolding eq by auto
qed

lemma word_rcat_rev: "(word_rcat (rev bs) :: 64 word) = word_of_int (unsigned_le (bs :: byte list))"
  by (simp add: word_rcat_def unsigned_le_horner)

lemma unpack_le:
  assumes "length buffer = 8"
  shows "struct_unpack_q LittleEndian buffer = Inr (spec_signed_le64 buffer)"
proof -
  let ?u = "unsigned_le buffer"
  have b: "0 \<le> ?u" "?u < 2 ^ 64"
    using unsigned_le_bounds [of buffer] assms by simp_all
  have w: "(word_rcat (rev buffer) :: 64 word) = word_of_int ?u" by (rule word_rcat_rev)
  have s: "sint (word_of_int ?u :: 64 word) = (if ?u < 2 ^ 63 then ?u else ?u - 2 ^ 64)"
  proof (cases "?u < 2 ^ 63")
    case True
    then show ?thesis using b by (simp add: sint_sbintrunc' signed_take_bit_int_eq_self)
  next
    case False
    have e: "(word_of_int ?u :: 64 word) = word_of_int (?u - 2 ^ 64)"
      by (simp add: word_of_int_eq_iff take_bit_eq_mod)
    have "sint (word_of_int ?u :: 64 word) = sint (word_of_int (?u - 2 ^ 64) :: 64 word)"
      using e by (rule arg_cong)
    also have "\<dots> = signed_take_bit 63 (?u - 2 ^ 64)"
      by (simp only: sint_sbintrunc') simp
    also have "\<dots> = ?u - 2 ^ 64"
      using b False by (intro signed_take_bit_int_eq_self) simp_all
    finally show ?thesis using False by simp
  qed
  show ?thesis using assms
    by (simp add: struct_unpack_q_def struct_calcsize_q_def spec_signed_le64_def w s Let_def)
qed


lemma file_read_8:
  assumes "fpos f + 8 \<le> length (fcontent f)"
  shows "file_read f struct_calcsize_q = (take 8 (drop (fpos f) (fcontent f)), f\<lparr>fpos := fpos f + 8\<rparr>)"
  using assms by (simp add: file_read_def struct_calcsize_q_def Let_def)

lemma spec_add_plus: "spec_add h chunk = h + word_rcat (rev chunk)"
  by (simp add: spec_add_def spec_signed_le64_def)

lemma word_of_int_mod64: "(word_of_int (x mod 2 ^ 64) :: 64 word) = word_of_int x"
  by (simp add: word_of_int_eq_iff take_bit_eq_mod)

lemma masked_add:
  "word_of_int ((hash + spec_signed_le64 chunk) AND 0xFFFFFFFFFFFFFFFF) = spec_add (word_of_int hash) chunk"
proof -
  let ?w = "word_rcat (rev chunk) :: 64 word"
  have "(word_of_int ((hash + sint ?w) mod 2 ^ 64) :: 64 word) = word_of_int (hash + sint ?w)"
    by (rule word_of_int_mod64)
  also have "\<dots> = word_of_int hash + ?w"
    by simp
  finally show ?thesis
    by (simp add: mask64 spec_add_plus spec_signed_le64_def)
qed

lemma hash_loop_refines:
  assumes "fpos f + 8 * n \<le> length (fcontent f)"
  shows "\<exists>hash'. hash_loop n LittleEndian f hash = Inr (f\<lparr>fpos := fpos f + 8 * n\<rparr>, hash')
     \<and> word_of_int hash' = foldl spec_add (word_of_int hash) (chunks8 n (drop (fpos f) (fcontent f)))
     \<and> (0 < n \<longrightarrow> 0 \<le> hash' \<and> hash' < 2 ^ 64)"
  using assms
proof (induction n arbitrary: f hash)
  case 0
  then show ?case by simp
next
  case (Suc n)
  let ?buffer = "take 8 (drop (fpos f) (fcontent f))"
  let ?f' = "f\<lparr>fpos := fpos f + 8\<rparr>"
  let ?h = "(hash + spec_signed_le64 ?buffer) AND 0xFFFFFFFFFFFFFFFF"
  have len: "length ?buffer = 8" using Suc.prems by simp
  have rd: "file_read f struct_calcsize_q = (?buffer, ?f')"
    using Suc.prems by (intro file_read_8) simp
  have step: "hash_loop (Suc n) LittleEndian f hash = hash_loop n LittleEndian ?f' ?h"
    by (simp add: rd unpack_le [OF len])
  have pre: "fpos ?f' + 8 * n \<le> length (fcontent ?f')" using Suc.prems by simp
  from Suc.IH [OF pre, of ?h] obtain hash' where
    r: "hash_loop n LittleEndian ?f' ?h = Inr (?f'\<lparr>fpos := fpos ?f' + 8 * n\<rparr>, hash')"
    and w: "word_of_int hash' = foldl spec_add (word_of_int ?h) (chunks8 n (drop (fpos ?f') (fcontent ?f')))"
    and b: "0 < n \<longrightarrow> 0 \<le> hash' \<and> hash' < 2 ^ 64"
    by blast
  have hb: "0 \<le> ?h \<and> ?h < 2 ^ 64" by (simp add: mask64)
  have b': "0 \<le> hash' \<and> hash' < 2 ^ 64"
  proof (cases n)
    case 0
    then show ?thesis using r hb by simp
  next
    case (Suc m)
    then show ?thesis using b by simp
  qed
  show ?case
    unfolding step r
    using w b' by (simp add: masked_add ac_simps)
qed


lemma chunks8_take: "chunks8 n (take (8 * n) xs) = chunks8 n xs"
proof (induction n arbitrary: xs)
  case 0
  then show ?case by simp
next
  case (Suc n)
  have "drop 8 (take (8 * Suc n) xs) = take (8 * n) (drop 8 xs)"
    by (simp add: drop_take)
  then show ?case using Suc.IH [of "drop 8 xs"] by simp
qed

lemma hex_digits_Suc: "hex_digits (Suc k) n = hex_digits k (n div 16) @ [hex_digit (n mod 16)]"
proof -
  have "n div 16 ^ (k - i) = n div 16 div 16 ^ (k - 1 - i)" if "i < k" for i
  proof -
    have "(16::nat) ^ (k - i) = 16 * 16 ^ (k - 1 - i)"
      using that by (metis Suc_diff_Suc diff_Suc_eq_diff_pred diff_commute power_Suc)
    then show ?thesis by (simp add: div_mult2_eq)
  qed
  then show ?thesis by (simp add: hex_digits_def)
qed

lemma hex_of_nat_small: "n < 16 \<Longrightarrow> hex_of_nat n = [hex_digit n]"
  by (simp add: hex_of_nat.simps)

lemma hex_of_nat_big: "\<not> n < 16 \<Longrightarrow> hex_of_nat n = hex_of_nat (n div 16) @ [hex_digit (n mod 16)]"
  by (subst hex_of_nat.simps) simp

lemma hex_of_nat_length: "n < 16 ^ Suc k \<Longrightarrow> length (hex_of_nat n) \<le> Suc k"
proof (induction k arbitrary: n)
  case 0
  then show ?case by (simp add: hex_of_nat_small)
next
  case (Suc k)
  show ?case
  proof (cases "n < 16")
    case True
    then show ?thesis by (simp add: hex_of_nat_small)
  next
    case False
    have "n div 16 < 16 ^ Suc k" using Suc.prems by (simp add: less_mult_imp_div_less)
    from Suc.IH [OF this] show ?thesis by (simp add: hex_of_nat_big [OF False])
  qed
qed

lemma pad_hex_of_nat:
  "n < 16 ^ Suc k \<Longrightarrow>
   replicate (Suc k - length (hex_of_nat n)) (CHR ''0'') @ hex_of_nat n = hex_digits (Suc k) n"
proof (induction k arbitrary: n)
  case 0
  then show ?case by (simp add: hex_of_nat_small hex_digits_def)
next
  case (Suc k)
  have z: "hex_digit 0 = CHR ''0''" by (simp add: hex_digit_def)
  show ?case
  proof (cases "n < 16")
    case True
    have "hex_digits (Suc k) 0 = replicate (Suc k) (CHR ''0'')"
      using Suc.IH [of 0] by (simp add: hex_of_nat_small z replicate_append_same)
    then show ?thesis using True
      by (simp add: hex_digits_Suc [of "Suc k"] hex_of_nat_small)
  next
    case False
    have lt: "n div 16 < 16 ^ Suc k" using Suc.prems by (simp add: less_mult_imp_div_less)
    have len: "length (hex_of_nat (n div 16)) \<le> Suc k" by (rule hex_of_nat_length [OF lt])
    show ?thesis
      using Suc.IH [OF lt] len
      by (simp add: hex_digits_Suc [of "Suc k"] hex_of_nat_big [OF False] Suc_diff_le)
  qed
qed

lemma spec_hex16_digits: "spec_hex16 h = hex_digits 16 (unat h)"
proof -
  have m: "(15 :: 64 word) = mask 4" by (simp add: mask_eq_exp_minus_1)
  have "unat (drop_bit (4 * (15 - i)) h AND 15) = unat h div 16 ^ (15 - i) mod 16" for i
  proof -
    let ?m = "4 * (15 - i)"
    have d: "unat (x AND mask 4) = unat x mod 16" for x :: "64 word"
      by (simp add: take_bit_eq_mod unat_mod flip: take_bit_eq_mask)
    have a: "unat (drop_bit ?m h) = drop_bit ?m (unat h)" by (rule unat_drop_bit_eq)
    have b: "drop_bit ?m (unat h) = unat h div 2 ^ ?m" by (rule drop_bit_eq_div)
    have c: "(2::nat) ^ ?m = 16 ^ (15 - i)" by (simp add: power_mult)
    show ?thesis unfolding m d a b c ..
  qed
  then show ?thesis by (simp add: spec_hex16_def hex_digits_def)
qed

lemma format_016x_spec:
  assumes "0 \<le> h" "h < 2 ^ 64"
  shows "format_016x h = spec_hex16 (word_of_int h)"
proof -
  have u: "unat (word_of_int h :: 64 word) = nat h"
    using assms by (simp add: unat_eq_nat_uint uint_word_of_int take_bit_eq_mod)
  have "nat h < 16 ^ Suc 15" using assms by (simp add: nat_less_iff)
  from pad_hex_of_nat [OF this] show ?thesis
    using assms by (simp add: format_016x_def spec_hex16_digits u)
qed


lemma chunks8_replicate: "8 * n \<le> m \<Longrightarrow> chunks8 n (replicate m x) = replicate n (replicate 8 x)"
proof (induction n arbitrary: m)
  case 0
  then show ?case by simp
next
  case (Suc n)
  have "8 * n \<le> m - 8" using Suc.prems by simp
  from Suc.IH [OF this] show ?case using Suc.prems by (simp add: min_def)
qed

lemma foldl_spec_add_replicate:
  "foldl spec_add h (replicate n c) = h + of_nat n * word_rcat (rev c)"
  by (induction n arbitrary: h) (simp_all add: spec_add_plus algebra_simps)

lemma ff8: "(word_rcat (replicate 8 (255 :: byte)) :: 64 word) = - 1"
proof -
  have r: "replicate 8 (255 :: byte) = [255, 255, 255, 255, 255, 255, 255, 255]"
    by (simp add: numeral_eq_Suc)
  show ?thesis by (simp add: r word_rcat_def)
qed

lemma spec_ff: "spec_fingerprint (replicate 131072 255) = ''000000000001c000''"
proof -
  have a: "chunks8 8192 (replicate 65536 (255::byte)) = replicate 8192 (replicate 8 255)"
    by (simp add: chunks8_replicate)
  have h: "foldl spec_add (foldl spec_add 131072 (chunks8 8192 (replicate 65536 255)))
                 (chunks8 8192 (replicate 65536 255)) = 114688"
    by (simp add: a foldl_spec_add_replicate ff8)
  have u: "[0..<16] = [0,1,2,3,4,5,6,7,8,9,10,11,12,13,14,15]"
    by code_simp
  show ?thesis
    by (simp add: spec_fingerprint_def h spec_hex16_def hex_digit_def u drop_bit_eq_div)
qed


text \<open>
  C1. On a host with little-endian byte order, for every file of at least 131072
  bytes, \<open>calculate_hash_for_file\<close> returns exactly the reference fingerprint of the
  file's bytes (the accumulator starts at the size, the 8192 signed 64-bit integers of
  the first 65536 bytes and the 8192 of the last 65536 bytes are added with wrap-around
  at 64 bits, and the sum is written as sixteen lowercase hexadecimal digits). The file
  handle is closed on this path: the world is left as it was found.
\<close>

theorem fingerprint_matches_reference:
  assumes ex: "files w name = Some (File bs)" and size: "131072 \<le> length bs"
  shows "calculate_hash_for_file LittleEndian w name = (Inr (spec_fingerprint bs), w)"
proof -
  let ?f = "\<lparr>fname = name, fcontent = bs, fpos = 0\<rparr>"
  let ?w1 = "w\<lparr>handles := name # handles w\<rparr>"
  let ?h0 = "int (length bs)"
  have op: "py_open w name = Inr (?f, ?w1)" by (simp add: py_open_def ex)
  have sz: "os_path_getsize (files ?w1) name = Inr (length bs)"
    by (simp add: os_path_getsize_def ex)
  have n: "65536 div struct_calcsize_q = 8192" by (simp add: struct_calcsize_q_def)
  have "fpos ?f + 8 * 8192 \<le> length (fcontent ?f)" using size by simp
  from hash_loop_refines [OF this, of ?h0] obtain hash1 where
    l1: "hash_loop 8192 LittleEndian ?f ?h0 = Inr (?f\<lparr>fpos := fpos ?f + 8 * 8192\<rparr>, hash1)"
    and w1: "word_of_int hash1 = foldl spec_add (word_of_int ?h0) (chunks8 8192 (drop (fpos ?f) (fcontent ?f)))"
    by blast
  let ?f1 = "?f\<lparr>fpos := fpos ?f + 8 * 8192\<rparr>"
  let ?f1s = "file_seek ?f1 (nat (max 0 (int (length bs) - 65536)))"
  have pos: "fpos ?f1s = length bs - 65536" using size by (simp add: file_seek_def)
  have cont: "fcontent ?f1s = bs" by (simp add: file_seek_def)
  have "fpos ?f1s + 8 * 8192 \<le> length (fcontent ?f1s)" unfolding pos cont using size by simp
  from hash_loop_refines [OF this, of hash1] obtain hash2 where
    l2: "hash_loop 8192 LittleEndian ?f1s hash1 = Inr (?f1s\<lparr>fpos := fpos ?f1s + 8 * 8192\<rparr>, hash2)"
    and w2: "word_of_int hash2 = foldl spec_add (word_of_int hash1) (chunks8 8192 (drop (fpos ?f1s) (fcontent ?f1s)))"
    and b2: "0 \<le> hash2 \<and> hash2 < 2 ^ 64"
    by auto
  have c1: "chunks8 8192 (take 65536 bs) = chunks8 8192 bs"
    using chunks8_take [of 8192 bs] by simp
  have c2: "chunks8 8192 (take 65536 (drop (length bs - 65536) bs)) = chunks8 8192 (drop (length bs - 65536) bs)"
    using chunks8_take [of 8192 "drop (length bs - 65536) bs"] by simp
  have spec: "spec_fingerprint bs = spec_hex16 (word_of_int hash2)"
    unfolding spec_fingerprint_def Let_def c1 c2 w2 w1 pos cont by simp
  have fmt: "format_016x hash2 = spec_fingerprint bs"
    using b2 by (simp add: format_016x_spec spec)
  have cl: "file_close ?w1 (?f1s\<lparr>fpos := fpos ?f1s + 8 * 8192\<rparr>) = w"
    by (simp add: file_close_def file_seek_def)
  have big: "\<not> length bs < 65536 * 2" using size by simp
  show ?thesis
    unfolding calculate_hash_for_file_def
    by (simp only: op sz n sum.case prod.case big if_False l1 l2 fmt cl)
qed


theorem fingerprint_matches_reference_witness:
  "files big_world ''movie.avi'' = Some (File (replicate 131072 255))
   \<and> 131072 \<le> length (replicate 131072 (255 :: byte))
   \<and> calculate_hash_for_file LittleEndian big_world ''movie.avi''
       = (Inr ''000000000001c000'', big_world)"
proof -
  have ex: "files big_world ''movie.avi'' = Some (File (replicate 131072 255))"
    by (simp add: big_world_def)
  have size: "131072 \<le> length (replicate 131072 (255 :: byte))"
    by simp
  show ?thesis
    using fingerprint_matches_reference [OF ex size] ex size by (simp only: spec_ff simp_thms)
qed

text \<open>
  The byte order matters: the same eight bytes unpack to different integers on a
  big-endian host, so the theorem above is about little-endian hosts only.
\<close>

lemma unpack_depends_on_byteorder:
  "struct_unpack_q LittleEndian [1, 0, 0, 0, 0, 0, 0, 0] = Inr 1
   \<and> struct_unpack_q BigEndian [1, 0, 0, 0, 0, 0, 0, 0] = Inr 72057594037927936"
  by (simp add: struct_unpack_q_def struct_calcsize_q_def unsigned_le_def)


section \<open>Files under 131072 bytes\<close>

lemma format_016x_length: "16 \<le> length (format_016x h)"
  by (simp add: format_016x_def Let_def)

lemma SizeError_is_no_fingerprint: "format_016x h \<noteq> ''SizeError''"
proof
  assume "format_016x h = ''SizeError''"
  then have "length (format_016x h) = 9" by simp
  then show False using format_016x_length [of h] by simp
qed

text \<open>
  C2, as the code has it. For every file of fewer than 131072 bytes,
  \<open>calculate_hash_for_file\<close> raises nothing: it returns, as an ordinary value, the
  string \<open>SizeError\<close>, which is not the sixteen-digit rendering of any hash.
\<close>

theorem too_small_returns_SizeError:
  assumes "files w name = Some (File bs)" and "length bs < 131072"
  shows "fst (calculate_hash_for_file bo w name) = Inr ''SizeError''
         \<and> (\<forall>h. format_016x h \<noteq> ''SizeError'')"
  using assms
  by (simp add: calculate_hash_for_file_def py_open_def os_path_getsize_def
      SizeError_is_no_fingerprint)

theorem too_small_returns_SizeError_witness:
  "files small_world ''small.avi'' = Some (File [1, 2, 3])
   \<and> length [1, 2, 3 :: byte] < 131072
   \<and> fst (calculate_hash_for_file LittleEndian small_world ''small.avi'') = Inr ''SizeError''"
proof -
  have ex: "files small_world ''small.avi'' = Some (File [1, 2, 3])"
    by (simp add: small_world_def)
  have size: "length [1, 2, 3 :: byte] < 131072" by simp
  show ?thesis
    using too_small_returns_SizeError [OF ex size, of LittleEndian] ex size by simp
qed

text \<open>
  C2 as the specification states it, that the function fails with an error on such a
  file, is false for the file of three bytes.
\<close>

theorem too_small_does_not_fail:
  "\<not> (\<exists>e. fst (calculate_hash_for_file LittleEndian small_world ''small.avi'') = Inl e)"
  by (simp add: calculate_hash_for_file_def py_open_def os_path_getsize_def small_world_def)

text \<open>The caller sends the string on to the server as the hash of the movie.\<close>

lemma too_small_hash_query:
  assumes "files w name = Some (File bs)" and "length bs < 131072"
  shows "fst (obtain_movie_hash_query bo w name language)
         = Inr (HashQuery ''SizeError'' (str_nat (length bs)) language)"
  using assms
  by (simp add: obtain_movie_hash_query_def calculate_hash_for_file_def py_open_def
      os_path_getsize_def)

section \<open>The file handle\<close>

text \<open>
  C3. The handle is not released on every exit path. On the file of three bytes the
  function returns through the size check, before its only \<open>f.close()\<close>: no handle was
  open before the call, and the handle on the file is still open after it.
\<close>

theorem too_small_leaves_handle_open:
  "calculate_hash_for_file LittleEndian small_world ''small.avi''
     = (Inr ''SizeError'', small_world\<lparr>handles := [''small.avi'']\<rparr>)
   \<and> handles small_world = []"
  by (simp add: calculate_hash_for_file_def py_open_def os_path_getsize_def small_world_def)

text \<open>The same for every file under the size limit.\<close>

lemma too_small_leak:
  assumes "files w name = Some (File bs)" and "length bs < 131072"
  shows "handles (snd (calculate_hash_for_file bo w name)) = name # handles w"
  using assms
  by (simp add: calculate_hash_for_file_def py_open_def os_path_getsize_def)

section \<open>The subtitle file name: candidates in order\<close>

lemma example_paths:
  "os_path_dirname ''/x/movie.mkv'' = ''/x''"
  "os_path_basename ''/x/movie.mkv'' = ''movie.mkv''"
  "os_path_splitext ''movie.mkv'' = (''movie'', ''.mkv'')"
  "os_path_dirname ''movie.mkv'' = []"
  "os_path_basename ''movie.mkv'' = ''movie.mkv''"
  by (simp_all add: os_path_dirname_def os_path_basename_def os_path_splitext_def rstrip_def Let_def)

text \<open>
  C4, as the code has it. For every movie path, language and subtitle extension, with
  \<open>dir\<close> the directory of the movie and \<open>basename\<close> its file name without the last
  extension, \<open>obtain_subtitle_filename\<close> returns \<open>dir/basename + ext\<close> if that path is
  not an existing regular file; otherwise \<open>dir/basename.language + ext\<close> if that path is
  not an existing regular file; otherwise \<open>dir/basename.language.ss + ext\<close>, whether or
  not that third path exists. (\<open>dir/name\<close> is \<open>os.path.join\<close>.)
\<close>

theorem obtain_subtitle_filename_candidates:
  "obtain_subtitle_filename fs movie_filename language subtitle_ext =
     (let dir = os_path_dirname movie_filename;
          basename = fst (os_path_splitext (os_path_basename movie_filename));
          first = os_path_join dir (basename @ subtitle_ext);
          second = os_path_join dir (basename @ ''.'' @ language @ subtitle_ext);
          third = os_path_join dir (basename @ ''.'' @ language @ ''.ss'' @ subtitle_ext)
      in if \<not> os_path_isfile fs first then first
         else if \<not> os_path_isfile fs second then second
         else third)"
  by (simp add: obtain_subtitle_filename_def Let_def)

text \<open>When all three names are taken, the third is returned although it exists.\<close>

theorem obtain_subtitle_filename_candidates_witness:
  "obtain_subtitle_filename full_fs ''/x/movie.mkv'' ''eng'' ''.srt'' = ''/x/movie.eng.ss.srt''
   \<and> os_path_isfile full_fs ''/x/movie.eng.ss.srt''"
  using obtain_subtitle_filename_candidates [of full_fs "''/x/movie.mkv''" "''eng''" "''.srt''"]
  by (simp add: example_paths os_path_join_def os_path_isfile_def full_fs_def Let_def)

text \<open>
  C4 as the specification states it tests whether a path exists. The code tests
  \<open>os.path.isfile\<close>: where \<open>movie.srt\<close> exists as a directory and \<open>movie.eng.srt\<close>
  does not exist, the claim asks for \<open>movie.eng.srt\<close> and the code returns
  \<open>movie.srt\<close>.
\<close>

theorem existing_directory_is_returned:
  "obtain_subtitle_filename dir_fs ''movie.mkv'' ''eng'' ''.srt'' = ''movie.srt''
   \<and> os_path_exists dir_fs ''movie.srt''
   \<and> \<not> os_path_exists dir_fs ''movie.eng.srt''"
  by (simp add: obtain_subtitle_filename_def example_paths os_path_join_def os_path_isfile_def
      os_path_exists_def dir_fs_def Let_def)

text \<open>The examples of the specification.\<close>

lemma resolve_in_clean_directory:
  "obtain_subtitle_filename Map.empty ''movie.mkv'' ''eng'' ''.srt'' = ''movie.srt''"
  by (simp add: obtain_subtitle_filename_def example_paths os_path_join_def os_path_isfile_def Let_def)

lemma resolve_when_first_is_taken:
  "obtain_subtitle_filename [''movie.srt'' \<mapsto> File []] ''movie.mkv'' ''eng'' ''.srt'' = ''movie.eng.srt''"
  by (simp add: obtain_subtitle_filename_def example_paths os_path_join_def os_path_isfile_def Let_def)

section \<open>The choice among the search results\<close>

lemma py_int_examples: "py_int ''1'' = Inr 1" "py_int ''2'' = Inr 2" "py_int ''3'' = Inr 3"
  "py_int '' -12 '' = Inr (- 12)" "py_int ''abc'' = Inl ValueError" "py_int '''' = Inl ValueError"
  by (simp_all add: py_int_def strip_def is_space_def is_digit_def digits_value_def Let_def)

lemma season_episode_examples:
  "season_episode result_1_2 = Inr (1, 2)" "season_episode result_1_3 = Inr (1, 3)"
  by (simp_all add: season_episode_def getitem_def result_1_2_def result_1_3_def py_int_examples)


lemma keep_matching_raises:
  assumes "season_episode x = Inl e" and "\<forall>y \<in> set xs. \<exists>se. season_episode y = Inr se"
  shows "keep_matching k (xs @ x # ys) = Inl e"
  using assms by (induction xs) (auto split: sum.splits)







text \<open>A result whose season is no integer ends the filtering with a ValueError.\<close>

lemma unparsable_season_raises:
  "filter_bad_results [[(''SeriesSeason'', ''abc''), (''SeriesEpisode'', ''2'')]] (episode_query 1 2)
   = Inl ValueError"
  by (simp add: filter_bad_results_def episode_query_def season_episode_def getitem_def py_int_examples)

text \<open>
  The whole of \<open>find_subtitles\<close> on one movie: the server sends the results for the
  episodes 2 and 3, the name says episode 3, and the link and format of the second
  result are yielded.
\<close>

lemma find_subtitles_example:
  "fst (find_subtitles finding_server episode_guess LittleEndian [''a.avi''] ''eng'' two_world [])
   = ([(''a.avi'', Some ''http://dl/13.gz'', Some ''.sub'')], None)"
proof -
  have q: "obtain_guessit_query episode_guess ''a.avi'' ''eng''
           = \<lparr>query = quoted ''show'', season = Some 1, episode = Some 3, sublanguageid = ''eng''\<rparr>"
    by (simp add: obtain_guessit_query_def episode_guess_def truthy_str_def Let_def)
  have f: "filter_bad_results [result_1_2, result_1_3]
             \<lparr>query = quoted ''show'', season = Some 1, episode = Some 3, sublanguageid = ''eng''\<rparr>
           = Inr [result_1_3]"
    by (simp add: filter_bad_results_def season_episode_examples)
  have h: "obtain_movie_hash_query LittleEndian two_world ''a.avi'' ''eng''
           = (Inr (HashQuery ''SizeError'' (str_nat 0) ''eng''), two_world\<lparr>handles := [''a.avi'']\<rparr>)"
    by (simp add: obtain_movie_hash_query_def calculate_hash_for_file_def py_open_def
        os_path_getsize_def two_world_def)
  have e: "subtitle_entry [''a.avi'' \<mapsto> [result_1_3]] ''a.avi''
           = Inr (''a.avi'', Some ''http://dl/13.gz'', Some ''.sub'')"
    by (simp add: subtitle_entry_def chosen_result_def getitem_def result_1_3_def)
  show ?thesis
    by (simp add: find_subtitles_def query_open_subtitles_def finding_server_def quiet_server_def
        q h store_results_def f e Let_def)
qed

section \<open>The session: search calls and logout\<close>

lemma hash_query_shape:
  "obtain_movie_hash_query bo w m language = (Inr hq, w1) \<Longrightarrow> \<exists>h n. hq = HashQuery h n language"
  by (auto simp: obtain_movie_hash_query_def split: prod.splits sum.splits)

lemma query_loop_calls:
  assumes "query_loop srv guessit bo token language movie_filenames result w tr = (r, w', tr')"
  shows "\<exists>calls. tr' = tr @ calls
           \<and> length calls \<le> length movie_filenames
           \<and> list_all (pair_of_queries token language) calls
           \<and> map name_query_of calls
              = map (\<lambda>m. Some (obtain_guessit_query guessit m language)) (take (length calls) movie_filenames)
           \<and> ((\<exists>all. r = Inr all) \<longrightarrow> length calls = length movie_filenames)"
  using assms
proof (induction movie_filenames arbitrary: result w tr)
  case Nil
  then show ?case by auto
next
  case (Cons m ms)
  let ?gq = "obtain_guessit_query guessit m language"
  show ?case
  proof (cases "obtain_movie_hash_query bo w m language")
    case (Pair hr w1)
    show ?thesis
    proof (cases hr)
      case (Inl e)
      with Pair Cons.prems have "tr' = tr" "r = Inl e" by (simp_all add: Let_def)
      then show ?thesis by auto
    next
      case (Inr hq)
      from hash_query_shape Pair Inr obtain h n where hq: "hq = HashQuery h n language" by blast
      let ?qs = "[NameQuery ?gq, hq]"
      let ?c = "SearchSubtitles token ?qs"
      have c: "pair_of_queries token language ?c" "name_query_of ?c = Some ?gq"
        by (simp_all add: pair_of_queries_def name_query_of_def hq)
      consider (fail) e where "srv_SearchSubtitles srv tr token ?qs = Inl e"
        | (nokey) "srv_SearchSubtitles srv tr token ?qs = Inr None"
        | (data) rs where "srv_SearchSubtitles srv tr token ?qs = Inr (Some rs)"
        by (cases "srv_SearchSubtitles srv tr token ?qs") auto
      then show ?thesis
      proof cases
        case fail
        with Pair Inr Cons.prems have "tr' = tr @ [?c]" "r = Inl e" by (simp_all add: Let_def)
        then show ?thesis using c by (intro exI [of _ "[?c]"]) simp
      next
        case nokey
        with Pair Inr Cons.prems have "tr' = tr @ [?c]" "r = Inl KeyError" by (simp_all add: Let_def)
        then show ?thesis using c by (intro exI [of _ "[?c]"]) simp
      next
        case data
        show ?thesis
        proof (cases "store_results result m rs ?gq")
          case (Inl e)
          with data Pair Inr Cons.prems have "tr' = tr @ [?c]" "r = Inl e" by (simp_all add: Let_def)
          then show ?thesis using c by (intro exI [of _ "[?c]"]) simp
        next
          case st: (Inr result')
          with data Pair Inr Cons.prems
          have "query_loop srv guessit bo token language ms result' w1 (tr @ [?c]) = (r, w', tr')"
            by (simp add: Let_def)
          from Cons.IH [OF this] obtain calls where
            t: "tr' = (tr @ [?c]) @ calls" and l: "length calls \<le> length ms"
            and p: "list_all (pair_of_queries token language) calls"
            and n: "map name_query_of calls
                    = map (\<lambda>m. Some (obtain_guessit_query guessit m language)) (take (length calls) ms)"
            and s: "(\<exists>all. r = Inr all) \<longrightarrow> length calls = length ms"
            by blast
          show ?thesis
            using t l p n s c by (intro exI [of _ "?c # calls"]) simp
        qed
      qed
    qed
  qed
qed


lemma pair_is_search: "pair_of_queries token language c \<Longrightarrow> is_search c"
  by (auto simp: pair_of_queries_def is_search_def split: rpc_call.splits)

lemma filter_is_search_pairs:
  "list_all (pair_of_queries token language) calls \<Longrightarrow> filter is_search calls = calls"
  by (induction calls) (auto dest: pair_is_search)


text \<open>
  C8, as the code has it. In every run of \<open>query_open_subtitles\<close>, each search call
  carries the two queries of one movie (the name query first, then the hash query), the
  calls follow the order of the movies, there is at most one call for each movie, and a
  run that returns a result has made exactly one search call for each movie.
\<close>

theorem one_search_call_per_movie:
  assumes run: "query_open_subtitles srv guessit bo movie_filenames language w tr = (r, w', tr')"
  shows "length (filter is_search (drop (length tr) tr')) \<le> length movie_filenames
       \<and> (\<exists>token. list_all (pair_of_queries token language) (filter is_search (drop (length tr) tr')))
       \<and> map name_query_of (filter is_search (drop (length tr) tr'))
          = map (\<lambda>m. Some (obtain_guessit_query guessit m language))
              (take (length (filter is_search (drop (length tr) tr'))) movie_filenames)
       \<and> ((\<exists>all. r = Inr all)
            \<longrightarrow> length (filter is_search (drop (length tr) tr')) = length movie_filenames)"
proof -
  let ?login = "LogIn [] [] ''en'' ''OS Test User Agent''"
  consider (fail) e where "srv_LogIn srv tr = Inl e"
    | (nokey) "srv_LogIn srv tr = Inr None"
    | (ok) token where "srv_LogIn srv tr = Inr (Some token)"
    by (cases "srv_LogIn srv tr") auto
  then show ?thesis
  proof cases
    case fail
    with run have "tr' = tr @ [?login]" "r = Inl e"
      by (simp_all add: query_open_subtitles_def Let_def)
    then show ?thesis by (simp add: is_search_def)
  next
    case nokey
    with run have "tr' = tr @ [?login]" "r = Inl KeyError"
      by (simp_all add: query_open_subtitles_def Let_def)
    then show ?thesis by (simp add: is_search_def)
  next
    case ok
    obtain outcome w2 tr2 where
      loop: "query_loop srv guessit bo token language movie_filenames Map.empty w (tr @ [?login])
             = (outcome, w2, tr2)"
      by (cases "query_loop srv guessit bo token language movie_filenames Map.empty w (tr @ [?login])") auto
    from query_loop_calls [OF loop] obtain calls where
      t: "tr2 = (tr @ [?login]) @ calls" and l: "length calls \<le> length movie_filenames"
      and p: "list_all (pair_of_queries token language) calls"
      and n: "map name_query_of calls
              = map (\<lambda>m. Some (obtain_guessit_query guessit m language)) (take (length calls) movie_filenames)"
      and s: "(\<exists>all. outcome = Inr all) \<longrightarrow> length calls = length movie_filenames"
      by blast
    from run ok loop have tr': "tr' = tr2 @ [LogOut token]"
      by (auto simp: query_open_subtitles_def Let_def split: sum.splits)
    from run ok loop have r: "(\<exists>all. r = Inr all) \<longrightarrow> r = outcome"
      by (auto simp: query_open_subtitles_def Let_def split: sum.splits)
    have f: "filter is_search (drop (length tr) tr') = calls"
      unfolding tr' t using filter_is_search_pairs [OF p] by (simp add: is_search_def)
    show ?thesis
      unfolding f using l p n s r by auto
  qed
qed

lemma str_nat_0: "str_nat 0 = ''0''"
  by code_simp

lemma two_movie_run:
  "query_open_subtitles quiet_server no_guess LittleEndian [''a.avi'', ''b.avi''] ''eng'' two_world []
   = (Inr Map.empty,
      two_world\<lparr>handles := [''b.avi'', ''a.avi'']\<rparr>,
      [LogIn [] [] ''en'' ''OS Test User Agent'',
       SearchSubtitles ''tok''
         [NameQuery \<lparr>query = ''a.avi'', season = None, episode = None, sublanguageid = ''eng''\<rparr>,
          HashQuery ''SizeError'' ''0'' ''eng''],
       SearchSubtitles ''tok''
         [NameQuery \<lparr>query = ''b.avi'', season = None, episode = None, sublanguageid = ''eng''\<rparr>,
          HashQuery ''SizeError'' ''0'' ''eng''],
       LogOut ''tok''])"
  by (simp add: query_open_subtitles_def quiet_server_def no_guess_def two_world_def
      obtain_guessit_query_def obtain_movie_hash_query_def calculate_hash_for_file_def
      py_open_def os_path_getsize_def os_path_basename_def store_results_def str_nat_0 Let_def)

theorem one_search_call_per_movie_witness:
  "length (filter is_search (snd (snd
        (query_open_subtitles quiet_server no_guess LittleEndian [''a.avi'', ''b.avi''] ''eng'' two_world []))))
     = length [''a.avi'', ''b.avi'']"
  using one_search_call_per_movie [OF two_movie_run] by (simp add: two_movie_run)


text \<open>
  C8 as the specification states it, that a run never makes more than one search call,
  is false for a run over two movies.
\<close>

theorem two_movies_two_searches:
  "\<not> length (filter is_search (snd (snd
        (query_open_subtitles quiet_server no_guess LittleEndian [''a.avi'', ''b.avi''] ''eng'' two_world []))))
      \<le> 1"
  by (simp add: two_movie_run is_search_def)


text \<open>
  C9, as the code has it. In every run in which the login answers a token, the trace
  of the run is the login, then search calls only, then one logout with that token,
  whatever the loop did; if the logout fails, its exception is the outcome of the run,
  and if it succeeds, the outcome of the run is the outcome of the loop.
\<close>

theorem logout_always_issued:
  assumes login: "srv_LogIn srv tr = Inr (Some token)"
    and run: "query_open_subtitles srv guessit bo movie_filenames language w tr = (r, w', tr')"
  shows "(\<exists>calls. tr' = tr @ [LogIn [] [] ''en'' ''OS Test User Agent''] @ calls @ [LogOut token]
            \<and> list_all is_search calls)
       \<and> (\<forall>e. srv_LogOut srv (butlast tr') token = Inl e \<longrightarrow> r = Inl e)
       \<and> (\<forall>u. srv_LogOut srv (butlast tr') token = Inr u \<longrightarrow>
            r = fst (query_loop srv guessit bo token language movie_filenames Map.empty w
                      (tr @ [LogIn [] [] ''en'' ''OS Test User Agent''])))"
proof -
  let ?login = "LogIn [] [] ''en'' ''OS Test User Agent''"
  obtain outcome w2 tr2 where
    loop: "query_loop srv guessit bo token language movie_filenames Map.empty w (tr @ [?login])
           = (outcome, w2, tr2)"
    by (cases "query_loop srv guessit bo token language movie_filenames Map.empty w (tr @ [?login])") auto
  from query_loop_calls [OF loop] obtain calls where
    t: "tr2 = (tr @ [?login]) @ calls" and p: "list_all (pair_of_queries token language) calls"
    by blast
  have s: "list_all is_search calls"
    using p by (induction calls) (auto dest: pair_is_search)
  from run login loop have tr': "tr' = tr2 @ [LogOut token]"
    by (auto simp: query_open_subtitles_def Let_def split: sum.splits)
  then have b: "butlast tr' = tr2" by simp
  from run login loop have bad: "srv_LogOut srv tr2 token = Inl e \<Longrightarrow> r = Inl e" for e
    by (auto simp: query_open_subtitles_def Let_def split: sum.splits)
  from run login loop have good: "srv_LogOut srv tr2 token = Inr u \<Longrightarrow> r = outcome" for u
    by (auto simp: query_open_subtitles_def Let_def split: sum.splits)
  show ?thesis
    unfolding b using tr' t s bad good loop by auto
qed

lemma failed_search_run:
  "query_open_subtitles bad_search_server no_guess LittleEndian [''a.avi'', ''b.avi''] ''eng'' two_world []
   = (Inl (Fault ''search''),
      two_world\<lparr>handles := [''a.avi'']\<rparr>,
      [LogIn [] [] ''en'' ''OS Test User Agent'',
       SearchSubtitles ''tok''
         [NameQuery \<lparr>query = ''a.avi'', season = None, episode = None, sublanguageid = ''eng''\<rparr>,
          HashQuery ''SizeError'' ''0'' ''eng''],
       LogOut ''tok''])"
  by (simp add: query_open_subtitles_def bad_search_server_def quiet_server_def no_guess_def two_world_def
      obtain_guessit_query_def obtain_movie_hash_query_def calculate_hash_for_file_def
      py_open_def os_path_getsize_def os_path_basename_def store_results_def str_nat_0 Let_def)

theorem logout_always_issued_witness:
  "srv_LogIn bad_search_server [] = Inr (Some ''tok'')
   \<and> fst (query_open_subtitles bad_search_server no_guess LittleEndian [''a.avi'', ''b.avi''] ''eng'' two_world [])
      = Inl (Fault ''search'')
   \<and> last (snd (snd (query_open_subtitles bad_search_server no_guess LittleEndian
                        [''a.avi'', ''b.avi''] ''eng'' two_world [])))
      = LogOut ''tok''"
proof -
  have login: "srv_LogIn bad_search_server [] = Inr (Some ''tok'')"
    by (simp add: bad_search_server_def quiet_server_def)
  from logout_always_issued [OF login failed_search_run] login
  show ?thesis by (auto simp: failed_search_run)
qed


text \<open>
  C9 as the specification states it, that a failing logout does not fail the run, is
  false: with a server whose logout fails, the loop ends with a result and the
  run ends with the exception of the logout, which \<open>find_subtitles\<close> passes on.
\<close>

theorem failed_logout_fails_the_run:
  "srv_LogIn bad_logout_server [] = Inr (Some ''tok'')
   \<and> fst (query_loop bad_logout_server no_guess LittleEndian ''tok'' ''eng'' [''a.avi''] Map.empty two_world
            [LogIn [] [] ''en'' ''OS Test User Agent''])
      = Inr Map.empty
   \<and> fst (query_open_subtitles bad_logout_server no_guess LittleEndian [''a.avi''] ''eng'' two_world [])
      = Inl (Fault ''logout'')
   \<and> fst (find_subtitles bad_logout_server no_guess LittleEndian [''a.avi''] ''eng'' two_world [])
      = ([], Some (Fault ''logout''))"
  by (simp add: find_subtitles_def query_open_subtitles_def bad_logout_server_def quiet_server_def
      no_guess_def two_world_def obtain_guessit_query_def obtain_movie_hash_query_def
      calculate_hash_for_file_def py_open_def os_path_getsize_def os_path_basename_def
      store_results_def str_nat_0 Let_def)

section \<open>Movie discovery: duplicates\<close>

lemma last4_examples: "last4 ''s'' = ''s''" "last4 ''a.avi'' = ''.avi''"
  by (simp_all add: last4_def)

lemma nested_join: "os_path_join ''d'' ''s'' = ''d/s''" "os_path_join ''d/s'' ''a.avi'' = ''d/s/a.avi''"
  by (simp_all add: os_path_join_def)

lemma inner_call:
  "find_movie_files (Suc 0) nested_fs [''d/s''] True = Some ([''d/s/a.avi''], None)"
  by (simp add: nested_fs_def os_path_isfile_def os_listdir_def last4_examples nested_join
      extensions_def Let_def)


text \<open>
  C6. A path can be yielded twice. With the file \<open>d/s/a.avi\<close> as the first input, the
  directory \<open>d\<close> as the second, and recursion enabled, the file is yielded as a direct
  input and again by the recursive call for \<open>d/s\<close>, whose set \<open>returned\<close> starts
  empty.
\<close>

theorem same_file_yielded_twice:
  "find_movie_files (Suc (Suc 0)) nested_fs [''d/s/a.avi'', ''d''] True
     = Some ([''d/s/a.avi'', ''d/s/a.avi''], None)"
proof -
  have "find_movie_files (Suc (Suc 0)) nested_fs [''d/s/a.avi'', ''d''] True
        = inputs_loop (\<lambda>xs. find_movie_files (Suc 0) nested_fs xs True) nested_fs True [''d/s/a.avi'', ''d''] {}"
    by (rule find_movie_files.simps)
  also have "\<dots> = Some ([''d/s/a.avi'', ''d/s/a.avi''], None)"
    by (simp add: inner_call last4_examples nested_join extensions_def Let_def
        os_path_isfile_def os_path_isdir_def os_listdir_def nested_fs_def [unfolded fun_upd_def])
  finally show ?thesis .
qed


text \<open>
  Without recursion every yield goes through the one set \<open>returned\<close>: the call ends
  (one unit of fuel is enough) and yields no path twice.
\<close>

lemma names_loop_nonrecursive:
  "names_loop inner fs False input_name names returned = Some (ys, e, r)
   \<Longrightarrow> distinct ys \<and> set ys \<inter> returned = {} \<and> r = returned \<union> set ys \<and> e = None"
proof (induction names arbitrary: returned ys e r)
  case Nil
  then show ?case by simp
next
  case (Cons name names)
  let ?result = "os_path_join input_name name"
  show ?case
  proof (cases "last4 name \<in> extensions \<and> ?result \<notin> returned")
    case True
    with Cons.prems obtain ys' where
      rec: "names_loop inner fs False input_name names (insert ?result returned) = Some (ys', e, r)"
      and ys: "ys = ?result # ys'"
      by (auto simp: Let_def split: option.splits)
    from Cons.IH [OF rec] ys True show ?thesis by auto
  next
    case False
    with Cons.prems have "names_loop inner fs False input_name names returned = Some (ys, e, r)"
      by (auto simp: Let_def split: if_splits)
    from Cons.IH [OF this] show ?thesis .
  qed
qed

lemma inputs_loop_nonrecursive:
  "inputs_loop inner fs False input_names returned = Some (ys, e)
   \<Longrightarrow> distinct ys \<and> set ys \<inter> returned = {}"
proof (induction input_names arbitrary: returned ys e)
  case Nil
  then show ?case by simp
next
  case (Cons input_name input_names)
  show ?case
  proof (cases "os_path_isfile fs input_name \<and> input_name \<notin> returned")
    case True
    with Cons.prems obtain ys' where
      rec: "inputs_loop inner fs False input_names (insert input_name returned) = Some (ys', e)"
      and ys: "ys = input_name # ys'"
      by (auto split: option.splits)
    from Cons.IH [OF rec] ys True show ?thesis by auto
  next
    case False
    show ?thesis
    proof (cases "os_listdir fs input_name")
      case (Inl err)
      with False Cons.prems show ?thesis by auto
    next
      case (Inr names)
      with False Cons.prems obtain xs e1 r where
        nl: "names_loop inner fs False input_name names returned = Some (xs, e1, r)"
        by (auto split: option.splits)
      from names_loop_nonrecursive [OF nl] have
        x: "distinct xs" "set xs \<inter> returned = {}" "r = returned \<union> set xs" "e1 = None"
        by auto
      from False Inr nl x(4) Cons.prems obtain ys' where
        rec: "inputs_loop inner fs False input_names r = Some (ys', e)" and ys: "ys = xs @ ys'"
        by (auto split: option.splits)
      from Cons.IH [OF rec] x ys show ?thesis by auto
    qed
  qed
qed

lemma names_loop_nonrecursive_total:
  "\<exists>res. names_loop inner fs False input_name names returned = Some res"
proof (induction names arbitrary: returned)
  case Nil
  then show ?case by simp
next
  case (Cons name names)
  let ?result = "os_path_join input_name name"
  from Cons.IH [of returned] obtain ys e r where
    a: "names_loop inner fs False input_name names returned = Some (ys, e, r)"
    by (metis prod_cases3)
  from Cons.IH [of "insert ?result returned"] obtain ys' e' r' where
    b: "names_loop inner fs False input_name names (insert ?result returned) = Some (ys', e', r')"
    by (metis prod_cases3)
  show ?case by (simp add: a b Let_def)
qed

lemma inputs_loop_nonrecursive_total:
  "\<exists>res. inputs_loop inner fs False input_names returned = Some res"
proof (induction input_names arbitrary: returned)
  case Nil
  then show ?case by simp
next
  case (Cons a input_names)
  show ?case
  proof (cases "os_path_isfile fs a \<and> a \<notin> returned")
    case True
    then show ?thesis using Cons.IH [of "insert a returned"] by auto
  next
    case False
    show ?thesis
    proof (cases "os_listdir fs a")
      case (Inl e)
      then show ?thesis using False by auto
    next
      case (Inr names)
      obtain xs e r where nl: "names_loop inner fs False a names returned = Some (xs, e, r)"
        using names_loop_nonrecursive_total [of inner fs a names returned] by (metis prod_cases3)
      from names_loop_nonrecursive [OF nl] have "e = None" by simp
      then show ?thesis using False Inr nl Cons.IH [of r] by auto
    qed
  qed
qed

lemma nonrecursive_discovery_has_no_duplicates:
  "\<exists>ys e. find_movie_files (Suc fuel) fs input_names False = Some (ys, e) \<and> distinct ys"
proof -
  obtain ys e where
    r: "inputs_loop (\<lambda>xs. find_movie_files fuel fs xs False) fs False input_names {} = Some (ys, e)"
    using inputs_loop_nonrecursive_total [of "\<lambda>xs. find_movie_files fuel fs xs False" fs input_names "{}"]
    by auto
  from inputs_loop_nonrecursive [OF r] r show ?thesis by simp
qed


text \<open>
  A file named twice among the inputs is not yielded twice, but the second mention falls
  into the directory branch, and \<open>os.listdir\<close> on a file raises.
\<close>

lemma file_named_twice_raises:
  "find_movie_files (Suc 0) [''a.avi'' \<mapsto> File []] [''a.avi'', ''a.avi''] False
     = Some ([''a.avi''], Some OSError)"
  by (simp add: os_path_isfile_def os_listdir_def)

text \<open>
  The fuel only bounds the depth of the recursion: a result reached with some fuel is
  the result with any more.
\<close>

lemma names_loop_mono:
  assumes "\<And>xs res. inner xs = Some res \<Longrightarrow> inner' xs = Some res"
  shows "names_loop inner fs recursive input_name names returned = Some (ys, e, r)
         \<Longrightarrow> names_loop inner' fs recursive input_name names returned = Some (ys, e, r)"
proof (induction names arbitrary: returned ys e r)
  case Nil
  then show ?case by simp
next
  case (Cons name names)
  then show ?case
    by (auto simp: Let_def assms split: if_splits option.splits prod.splits)
qed

lemma inputs_loop_mono:
  assumes "\<And>xs res. inner xs = Some res \<Longrightarrow> inner' xs = Some res"
  shows "inputs_loop inner fs recursive input_names returned = Some (ys, e)
         \<Longrightarrow> inputs_loop inner' fs recursive input_names returned = Some (ys, e)"
proof (induction input_names arbitrary: returned ys e)
  case Nil
  then show ?case by simp
next
  case (Cons input_name input_names)
  then show ?case
    by (auto simp: names_loop_mono [OF assms] split: if_splits option.splits prod.splits sum.splits)
qed

lemma find_movie_files_more_fuel:
  "find_movie_files fuel fs input_names recursive = Some res
   \<Longrightarrow> find_movie_files (Suc fuel) fs input_names recursive = Some res"
proof (induction fuel arbitrary: input_names res)
  case 0
  then show ?case by simp
next
  case (Suc fuel)
  obtain ys e where res: "res = (ys, e)" by (cases res)
  have "inputs_loop (\<lambda>xs. find_movie_files fuel fs xs recursive) fs recursive input_names {} = Some (ys, e)"
    using Suc.prems by (simp add: res)
  then have "inputs_loop (\<lambda>xs. find_movie_files (Suc fuel) fs xs recursive) fs recursive input_names {} = Some (ys, e)"
    by (rule inputs_loop_mono [rotated]) (rule Suc.IH)
  then show ?case by (simp add: res)
qed

section \<open>Changing the configuration\<close>

text \<open>With no configuration file, the defaults are loaded.\<close>

lemma load_default: "load_configuration (\<lambda>bs. Inr Map.empty) Map.empty name = Inr Configuration"
  by (simp add: load_configuration_def read_bool_if_defined_def Let_def)

text \<open>
  C7. Nothing is ever written in the persistence format: \<open>_change_configuration\<close> calls
  \<open>set_config_from_lines\<close> on a Configuration, a method the class does not have. On a
  system with no configuration file, a call to change the language ends with the
  AttributeError and writes nothing.
\<close>

theorem change_configuration_raises_AttributeError:
  "change_configuration (\<lambda>bs. Inr Map.empty) Map.empty [''language=por''] ''.ss.ini''
     = (Inl AttributeError, Map.empty)"
  by (simp add: change_configuration_def load_default Configuration_set_config_from_lines_def)

text \<open>
  The same for every parser, file system, list of parameters and file name: the call
  ends with an exception and leaves the file system as it was.
\<close>

lemma change_configuration_always_raises:
  "\<exists>e. change_configuration read_ini fs params filename = (Inl e, fs)"
  by (simp add: change_configuration_def Configuration_set_config_from_lines_def split: sum.splits)

section \<open>Merging: movies that are already .mkv\<close>








lemma is_mkv_examples: "is_mkv ''a.MKV''" "\<not> is_mkv ''b.avi''"
  by code_simp+



text \<open>The whole block on the two example matches, with a tool that always fails.\<close>

lemma example_embedding:
  "main_embedding mkv_config failing_tool two_matches [] []
   = (None,
      \<lparr>stream = [[], ''Embedding MKV...'',
                  status_line '' - a.MKV'' ''skipped'',
                  status_line '' - b.mkv'' ''ERROR'',
                  replicate 80 (CHR ''_''), ''None'',
                  '':{b.avi}:'', ''Error: no source files were given.''],
       invocations = [[''mkvmerge'', ''--output'', ''b.mkv'', ''b.avi'', ''--language'', ''0:eng'', ''b.srt'']],
       failures = [(''b.avi'', ''Error: no source files were given.'')]\<rparr>)"
proof -
  have p: "os_path_splitext ''b.avi'' = (''b'', ''.avi'')" "os_path_basename ''a.MKV'' = ''a.MKV''"
    "os_path_basename ''b.mkv'' = ''b.mkv''"
    by (simp_all add: os_path_splitext_def os_path_basename_def Let_def)
  show ?thesis
    by (simp add: main_embedding_def mkv_config_def Configuration_def two_matches_def is_mkv_examples
        embed_mkv_def check_output_def failing_tool_def mkvmerge_params_def p print_status_def Let_def)
qed

end
